theory Spec2Isabelle
  imports Main
begin

section \<open>Python values, exceptions and the builtins the script calls\<close>

text \<open>
  The script \<^verbatim>\<open>airthings.py\<close> handles values that come from a JSON configuration file,
  from the command line and from the device client. They are modelled by one datatype
  of Python values. A dictionary is an association list in insertion order.
  A float is kept as mantissa and binary exponent (\<open>Finite m e\<close> is \<open>m * 2^e\<close>), or as
  an infinity with its sign, or as not-a-number.
\<close>

datatype pyfloat = Finite int int | Infinity bool | NaN

datatype pyval =
    PyNone
  | PyBool bool
  | PyInt int
  | PyFloat pyfloat
  | PyStr string
  | PyList "pyval list"
  | PyDict "(string \<times> pyval) list"

text \<open>
  An exception is an instance of a subclass of \<^verbatim>\<open>Exception\<close> (class name and message),
  a \<^verbatim>\<open>KeyboardInterrupt\<close>, or another \<^verbatim>\<open>BaseException\<close> that is not an
  \<^verbatim>\<open>Exception\<close> (\<^verbatim>\<open>SystemExit\<close>, \<^verbatim>\<open>GeneratorExit\<close>). The script tells exceptions apart
  by class only. The message of an exception that the script raises itself is its
  text; the message of an exception that a builtin raises is a short description, not
  the interpreter's wording.
\<close>

datatype exn = PyError string string | KeyboardInterrupt | OtherBase string

fun is_Exception :: "exn \<Rightarrow> bool" where
  "is_Exception (PyError cls msg) = True"
| "is_Exception KeyboardInterrupt = False"
| "is_Exception (OtherBase cls) = False"

text \<open>Truth value testing, as \<^verbatim>\<open>if x:\<close> and \<^verbatim>\<open>not x\<close> do it.\<close>

fun py_truthy :: "pyval \<Rightarrow> bool" where
  "py_truthy PyNone = False"
| "py_truthy (PyBool b) = b"
| "py_truthy (PyInt i) = (i \<noteq> 0)"
| "py_truthy (PyFloat (Finite m e)) = (m \<noteq> 0)"
| "py_truthy (PyFloat (Infinity s)) = True"
| "py_truthy (PyFloat NaN) = True"
| "py_truthy (PyStr s) = (s \<noteq> [])"
| "py_truthy (PyList xs) = (xs \<noteq> [])"
| "py_truthy (PyDict kvs) = (kvs \<noteq> [])"

text \<open>\<^verbatim>\<open>d.get(key, default)\<close>: only a dictionary has the method.\<close>

fun py_get :: "pyval \<Rightarrow> string \<Rightarrow> pyval \<Rightarrow> exn + pyval" where
  "py_get (PyDict kvs) key dflt =
     Inr (case map_of kvs key of None \<Rightarrow> dflt | Some v \<Rightarrow> v)"
| "py_get v key dflt = Inl (PyError ''AttributeError'' ''object has no attribute get'')"

text \<open>\<^verbatim>\<open>d[key]\<close> with a string key.\<close>

fun py_getitem :: "pyval \<Rightarrow> string \<Rightarrow> exn + pyval" where
  "py_getitem (PyDict kvs) key =
     (case map_of kvs key of
        None \<Rightarrow> Inl (PyError ''KeyError'' key)
      | Some v \<Rightarrow> Inr v)"
| "py_getitem v key = Inl (PyError ''TypeError'' ''bad subscript'')"

text \<open>\<^verbatim>\<open>for x in v\<close>: the elements a value yields when iterated.\<close>

fun py_iter :: "pyval \<Rightarrow> exn + pyval list" where
  "py_iter (PyList xs) = Inr xs"
| "py_iter (PyDict kvs) = Inr (map (\<lambda>kv. PyStr (fst kv)) kvs)"
| "py_iter (PyStr s) = Inr (map (\<lambda>c. PyStr [c]) s)"
| "py_iter v = Inl (PyError ''TypeError'' ''object is not iterable'')"

subsection \<open>Strings and integers\<close>

text \<open>
  A character is a code point below 256. The whitespace that \<^verbatim>\<open>str.strip()\<close> and
  \<^verbatim>\<open>int()\<close> remove, among these code points.
\<close>

definition is_space :: "char \<Rightarrow> bool" where
  "is_space c = (c \<in> set [CHR '' '', CHR 0x09, CHR 0x0A, CHR 0x0B, CHR 0x0C, CHR 0x0D,
                           CHR 0x1C, CHR 0x1D, CHR 0x1E, CHR 0x1F, CHR 0x85, CHR 0xA0])"

definition strip :: "string \<Rightarrow> string" where
  "strip s = rev (dropWhile is_space (rev (dropWhile is_space s)))"

text \<open>\<^verbatim>\<open>s.split(sep)\<close> for a one-character separator.\<close>

fun split_on :: "char \<Rightarrow> string \<Rightarrow> string list" where
  "split_on sep [] = [[]]"
| "split_on sep (c # cs) =
     (if c = sep then [] # split_on sep cs
      else (case split_on sep cs of
              [] \<Rightarrow> [[c]]
            | w # ws \<Rightarrow> (c # w) # ws))"

definition is_digit :: "char \<Rightarrow> bool" where
  "is_digit c = (48 \<le> (of_char c :: nat) \<and> (of_char c :: nat) \<le> 57)"

definition digit_val :: "char \<Rightarrow> nat" where
  "digit_val c = of_char c - 48"

text \<open>
  The decimal literal \<^verbatim>\<open>int(s)\<close> accepts after the sign: digits, with single underscores
  between digits. \<open>prev\<close> tells whether the character before was a digit. A literal of
  more than 4300 digits is refused (the default of \<^verbatim>\<open>sys.get_int_max_str_digits()\<close>).
\<close>

fun parse_digits :: "nat \<Rightarrow> bool \<Rightarrow> string \<Rightarrow> nat option" where
  "parse_digits acc prev [] = (if prev then Some acc else None)"
| "parse_digits acc prev (c # cs) =
     (if is_digit c then parse_digits (acc * 10 + digit_val c) True cs
      else if c = CHR ''_'' \<and> prev then parse_digits acc False cs
      else None)"

definition py_int_str :: "string \<Rightarrow> int option" where
  "py_int_str s =
     (if 4300 < length (filter is_digit s) then None
      else (case strip s of
              [] \<Rightarrow> None
            | c # cs \<Rightarrow>
                if c = CHR ''-'' then map_option (\<lambda>n. - int n) (parse_digits 0 False cs)
                else if c = CHR ''+'' then map_option int (parse_digits 0 False cs)
                else map_option int (parse_digits 0 False (c # cs))))"

text \<open>\<^verbatim>\<open>int(x)\<close> on a value.\<close>

fun py_int :: "pyval \<Rightarrow> exn + int" where
  "py_int (PyInt i) = Inr i"
| "py_int (PyBool b) = Inr (if b then 1 else 0)"
| "py_int (PyFloat (Finite m e)) =
     Inr (if 0 \<le> e then m * 2 ^ nat e
          else if 0 \<le> m then m div 2 ^ nat (- e)
          else - ((- m) div 2 ^ nat (- e)))"
| "py_int (PyFloat (Infinity s)) = Inl (PyError ''OverflowError'' ''cannot convert float infinity to integer'')"
| "py_int (PyFloat NaN) = Inl (PyError ''ValueError'' ''cannot convert float NaN to integer'')"
| "py_int (PyStr s) =
     (case py_int_str s of
        None \<Rightarrow> Inl (PyError ''ValueError'' (''invalid literal for int() with base 10: '' @ s))
      | Some i \<Rightarrow> Inr i)"
| "py_int v = Inl (PyError ''TypeError'' ''int() argument must be a string or a number'')"

text \<open>The decimal digits of a natural number, and \<^verbatim>\<open>str(i)\<close> of an integer.\<close>

definition digit_char :: "nat \<Rightarrow> char" where
  "digit_char n = char_of (48 + n)"

function digits_of :: "nat \<Rightarrow> string" where
  "digits_of n = (if n < 10 then [digit_char n] else digits_of (n div 10) @ [digit_char (n mod 10)])"
  by pat_completeness auto
termination
  by (relation "measure id") auto

definition str_int :: "int \<Rightarrow> string" where
  "str_int i = (if i < 0 then CHR ''-'' # digits_of (nat (- i)) else digits_of (nat i))"

subsection \<open>Time stamps and paths\<close>

text \<open>
  A time as \<^verbatim>\<open>datetime.now()\<close> returns it. Python's values have a year from 1 to 9999,
  a month from 1 to 12, a day from 1 to 31, an hour below 24, and a minute and a second
  below 60.
\<close>

record datetime =
  dt_year :: nat
  dt_month :: nat
  dt_day :: nat
  dt_hour :: nat
  dt_minute :: nat
  dt_second :: nat

definition pad :: "nat \<Rightarrow> nat \<Rightarrow> string" where
  "pad width n = replicate (width - length (digits_of n)) (CHR ''0'') @ digits_of n"

text \<open>
  The directives of \<^verbatim>\<open>strftime\<close> the script uses, as the C library of Linux formats
  them: the year in decimal without padding (four digits from the year 1000 on), the
  other fields zero-padded to two digits. Any other character is copied.
\<close>

definition directive :: "char \<Rightarrow> datetime \<Rightarrow> string" where
  "directive d t =
     (if d = CHR ''Y'' then digits_of (dt_year t)
      else if d = CHR ''m'' then pad 2 (dt_month t)
      else if d = CHR ''d'' then pad 2 (dt_day t)
      else if d = CHR ''H'' then pad 2 (dt_hour t)
      else if d = CHR ''M'' then pad 2 (dt_minute t)
      else if d = CHR ''S'' then pad 2 (dt_second t)
      else [CHR ''%'', d])"

fun strftime :: "string \<Rightarrow> datetime \<Rightarrow> string" where
  "strftime [] t = []"
| "strftime [c] t = [c]"
| "strftime (c # d # cs) t =
     (if c = CHR ''%'' then directive d t @ strftime cs t
      else c # strftime (d # cs) t)"

text \<open>\<^verbatim>\<open>os.path.join(a, b)\<close> on a POSIX system, for two string components.\<close>

definition os_path_join :: "string \<Rightarrow> string \<Rightarrow> string" where
  "os_path_join a b =
     (if b \<noteq> [] \<and> hd b = CHR ''/'' then b
      else if a = [] \<or> last a = CHR ''/'' then a @ b
      else a @ ''/'' @ b)"

section \<open>The outside world and the script's state\<close>

text \<open>
  Everything the script does to the outside is recorded as an event, in order. A log
  record keeps the pieces of its f-string: literal text, interpolated values and
  interpolated exceptions.
\<close>

datatype level = INFO | WARNING | ERROR

datatype frag = Lit string | Val pyval | Err exn

datatype event =
    EvNew nat int
  | EvConnect nat
  | EvRead nat
  | EvDisconnect nat
  | EvSleep nat
  | EvLog level "frag list"
  | EvMakedirs string
  | EvFileHandler string
  | EvJsonDump string pyval nat bool

text \<open>
  \<open>EvNew oid serial\<close> is the call \<^verbatim>\<open>WavePlusPlus(serial)\<close>; \<open>oid\<close> identifies the object
  the call creates (when it does not raise). \<open>EvJsonDump path doc indent sort_keys\<close> is
  \<^verbatim>\<open>with open(path, 'w') as fh: json.dump(doc, fh, indent=indent, sort_keys=sort_keys)\<close>.

  The outside world answers each call. An answer may depend on everything that
  happened before, so each answer is a function of the events so far.
\<close>

record world =
  arg_config :: string
  arg_device_serial :: "string option"
  config_exists :: "string \<Rightarrow> bool"
  config_load :: "string \<Rightarrow> exn + pyval"
  client_new :: "event list \<Rightarrow> int \<Rightarrow> exn option"
  client_connect :: "event list \<Rightarrow> nat \<Rightarrow> exn option"
  client_read :: "event list \<Rightarrow> nat \<Rightarrow> exn + pyval"
  client_disconnect :: "event list \<Rightarrow> nat \<Rightarrow> exn option"
  sleep_raises :: "event list \<Rightarrow> exn option"
  makedirs_raises :: "event list \<Rightarrow> string \<Rightarrow> exn option"
  file_handler_raises :: "event list \<Rightarrow> string \<Rightarrow> exn option"
  clock :: "event list \<Rightarrow> datetime"
  json_dump_raises :: "event list \<Rightarrow> string \<Rightarrow> pyval \<Rightarrow> exn option"

text \<open>
  The state of \<^verbatim>\<open>main\<close>: the events so far and the two local variables the retry loop
  shares between its iterations. \<open>waveplus = None\<close> means the name is not bound yet
  (\<^verbatim>\<open>'waveplus' in locals()\<close> is false).
\<close>

record state =
  trace :: "event list"
  waveplus :: "nat option"
  sensors :: pyval

definition emit :: "event \<Rightarrow> state \<Rightarrow> state" where
  "emit e st = st\<lparr>trace := trace st @ [e]\<rparr>"

fun is_new :: "event \<Rightarrow> bool" where
  "is_new (EvNew oid serial) = True"
| "is_new e = False"

fun is_connect :: "event \<Rightarrow> bool" where
  "is_connect (EvConnect oid) = True"
| "is_connect e = False"

fun is_read :: "event \<Rightarrow> bool" where
  "is_read (EvRead oid) = True"
| "is_read e = False"

fun is_disconnect :: "event \<Rightarrow> bool" where
  "is_disconnect (EvDisconnect oid) = True"
| "is_disconnect e = False"

fun is_sleep :: "event \<Rightarrow> bool" where
  "is_sleep (EvSleep n) = True"
| "is_sleep e = False"

fun is_dump :: "event \<Rightarrow> bool" where
  "is_dump (EvJsonDump path doc indent sk) = True"
| "is_dump e = False"

definition fresh_id :: "event list \<Rightarrow> nat" where
  "fresh_id tr = length (filter is_new tr)"

section \<open>One attempt: lines 118 to 140\<close>

datatype ctl = Fallthrough | Break | Raised exn

text \<open>
  The \<^verbatim>\<open>try\<close> block (lines 119 to 128). It ends by falling through, by \<^verbatim>\<open>break\<close>, or by an
  exception.
\<close>

definition try_body :: "world \<Rightarrow> int \<Rightarrow> nat \<Rightarrow> state \<Rightarrow> ctl \<times> state" where
  "try_body w serial attempt st =
     (let oid = fresh_id (trace st);
          st1 = emit (EvNew oid serial) st
      in case client_new w (trace st) serial of
           Some e \<Rightarrow> (Raised e, st1)
         | None \<Rightarrow>
      (let st2 = emit (EvConnect oid) (st1\<lparr>waveplus := Some oid\<rparr>)
       in case client_connect w (trace st1) oid of
            Some e \<Rightarrow> (Raised e, st2)
          | None \<Rightarrow>
      (let st3 = emit (EvRead oid) st2
       in case client_read w (trace st2) oid of
            Inl e \<Rightarrow> (Raised e, st3)
          | Inr v \<Rightarrow>
      (let st4 = emit (EvDisconnect oid) (st3\<lparr>sensors := v\<rparr>)
       in case client_disconnect w (trace st3) oid of
            Some e \<Rightarrow> (Raised e, st4)
          | None \<Rightarrow>
              if py_truthy v
              then (Break, emit (EvLog INFO [Lit ''Successfully queried device.'']) st4)
              else (Fallthrough,
                    emit (EvLog WARNING
                            [Lit ''Failed to query device on attempt '',
                             Val (PyInt (int attempt + 1)),
                             Lit ''. Trying again in 5 seconds.'']) st4)))))"

text \<open>The handler \<^verbatim>\<open>except Exception as e\<close> (lines 130 to 133).\<close>

definition except_handler :: "world \<Rightarrow> int \<Rightarrow> nat \<Rightarrow> exn \<Rightarrow> state \<Rightarrow> ctl \<times> state" where
  "except_handler w serial attempt e st =
     (let st1 = emit (EvLog ERROR
                        [Lit ''Error querying device '', Val (PyInt serial), Lit '': '', Err e]) st
      in if attempt < 4
         then (case sleep_raises w (trace st1) of
                 Some e' \<Rightarrow> (Raised e', emit (EvSleep 5) st1)
               | None \<Rightarrow> (Fallthrough, emit (EvSleep 5) st1))
         else (Fallthrough, st1))"

text \<open>
  The \<^verbatim>\<open>finally\<close> block (lines 134 to 140). Whatever \<^verbatim>\<open>disconnect\<close> raises there is
  swallowed by the bare \<^verbatim>\<open>except\<close>, so its answer is not asked for.
\<close>

definition finally_block :: "state \<Rightarrow> state" where
  "finally_block st =
     (case waveplus st of
        None \<Rightarrow> st
      | Some oid \<Rightarrow> emit (EvDisconnect oid) st)"

definition attempt_once :: "world \<Rightarrow> int \<Rightarrow> nat \<Rightarrow> state \<Rightarrow> ctl \<times> state" where
  "attempt_once w serial attempt st =
     (case try_body w serial attempt st of
        (Raised e, st1) \<Rightarrow>
          if is_Exception e
          then (case except_handler w serial attempt e st1 of
                  (c, st2) \<Rightarrow> (c, finally_block st2))
          else (Raised e, finally_block st1)
      | (c, st1) \<Rightarrow> (c, finally_block st1))"

section \<open>The retry loop: lines 117 to 144\<close>

text \<open>
  \<^verbatim>\<open>for attempt in range(5)\<close> over the list of attempt numbers. The result
  \<open>Fallthrough\<close> means the list was exhausted, which is when the loop's \<^verbatim>\<open>else\<close> clause
  runs.
\<close>

fun for_attempts :: "world \<Rightarrow> int \<Rightarrow> nat list \<Rightarrow> state \<Rightarrow> ctl \<times> state" where
  "for_attempts w serial [] st = (Fallthrough, st)"
| "for_attempts w serial (a # as) st =
     (case attempt_once w serial a st of
        (Fallthrough, st') \<Rightarrow> for_attempts w serial as st'
      | (Break, st') \<Rightarrow> (Break, st')
      | (Raised e, st') \<Rightarrow> (Raised e, st'))"

definition acquire :: "world \<Rightarrow> int \<Rightarrow> state \<Rightarrow> ctl \<times> state" where
  "acquire w serial st = for_attempts w serial [0..<5] st"

section \<open>One device: lines 111 to 156\<close>

text \<open>Lines 146 to 156: the output file of a successful poll.\<close>

definition data_file_name :: "int \<Rightarrow> string \<Rightarrow> string" where
  "data_file_name serial timestamp = ''WavePlusPlus-'' @ str_int serial @ ''-'' @ timestamp @ ''.json''"

definition save_data :: "world \<Rightarrow> string \<Rightarrow> int \<Rightarrow> state \<Rightarrow> exn option \<times> state" where
  "save_data w data_path serial st =
     (let timestamp = strftime ''%Y-%m-%d-%H-%M-%S'' (clock w (trace st));
          data_file = data_file_name serial timestamp;
          data_file_path = os_path_join data_path data_file;
          st1 = emit (EvJsonDump data_file_path (sensors st) 4 False) st
      in case json_dump_raises w (trace st) data_file_path (sensors st) of
           None \<Rightarrow>
             (None, emit (EvLog INFO [Lit ''Data saved to '', Val (PyStr data_file_path)]) st1)
         | Some e \<Rightarrow>
             if is_Exception e
             then (None,
                   emit (EvLog ERROR
                           [Lit ''Failed to save data to '', Val (PyStr data_file_path),
                            Lit '': '', Err e]) st1)
             else (Some e, st1))"

text \<open>Line 112: \<^verbatim>\<open>device.get('name', f"Device-{serial}")\<close>.\<close>

definition device_name_of :: "pyval \<Rightarrow> int \<Rightarrow> exn + pyval" where
  "device_name_of device serial = py_get device ''name'' (PyStr (''Device-'' @ str_int serial))"

text \<open>Lines 111 and 112: the serial and the display name of a descriptor.\<close>

definition resolve_device :: "pyval \<Rightarrow> exn + (int \<times> pyval)" where
  "resolve_device device =
     (case py_getitem device ''serial'' of
        Inl e \<Rightarrow> Inl e
      | Inr sv \<Rightarrow>
     (case py_int sv of
        Inl e \<Rightarrow> Inl e
      | Inr serial \<Rightarrow>
     (case device_name_of device serial of
        Inl e \<Rightarrow> Inl e
      | Inr device_name \<Rightarrow> Inr (serial, device_name))))"

definition querying_log :: "pyval \<Rightarrow> int \<Rightarrow> event" where
  "querying_log device_name serial =
     EvLog INFO [Lit ''Querying Device '', Val device_name,
                 Lit '' (Serial: '', Val (PyInt serial), Lit '')'']"

definition giving_up_log :: "int \<Rightarrow> event" where
  "giving_up_log serial =
     EvLog WARNING [Lit ''Failed to query device '', Val (PyInt serial),
                    Lit '' after five tries. Giving up!'']"

text \<open>
  The body of \<^verbatim>\<open>for device in devices\<close>. The result is the exception that leaves the
  body, if any; \<^verbatim>\<open>continue\<close> and the normal end both give \<open>None\<close>.
\<close>

definition process_device :: "world \<Rightarrow> string \<Rightarrow> pyval \<Rightarrow> state \<Rightarrow> exn option \<times> state" where
  "process_device w data_path device st =
     (case resolve_device device of
        Inl e \<Rightarrow> (Some e, st)
      | Inr (serial, device_name) \<Rightarrow>
     (let st1 = emit (querying_log device_name serial) st;
          st2 = st1\<lparr>sensors := PyNone\<rparr>
      in case acquire w serial st2 of
           (Raised e, st3) \<Rightarrow> (Some e, st3)
         | (Fallthrough, st3) \<Rightarrow> (None, emit (giving_up_log serial) st3)
         | (Break, st3) \<Rightarrow> save_data w data_path serial st3))"

fun for_devices :: "world \<Rightarrow> string \<Rightarrow> pyval list \<Rightarrow> state \<Rightarrow> exn option \<times> state" where
  "for_devices w data_path [] st = (None, st)"
| "for_devices w data_path (device # devices) st =
     (case process_device w data_path device st of
        (Some e, st') \<Rightarrow> (Some e, st')
      | (None, st') \<Rightarrow> for_devices w data_path devices st')"

section \<open>Configuration, logging set-up and \<^verbatim>\<open>main\<close>\<close>

text \<open>Lines 47 to 57.\<close>

definition load_config :: "world \<Rightarrow> string \<Rightarrow> state \<Rightarrow> (exn + pyval) \<times> state" where
  "load_config w config_path st =
     (if \<not> config_exists w config_path then (Inr (PyDict []), st)
      else (case config_load w config_path of
              Inr v \<Rightarrow> (Inr v, st)
            | Inl e \<Rightarrow>
                if is_Exception e
                then (Inr (PyDict []),
                      emit (EvLog ERROR
                              [Lit ''Failed to load config file '', Val (PyStr config_path),
                               Lit '': '', Err e]) st)
                else (Inl e, st)))"

text \<open>Lines 59 to 70.\<close>

fun all_some :: "'a option list \<Rightarrow> 'a list option" where
  "all_some [] = Some []"
| "all_some (None # xs) = None"
| "all_some (Some x # xs) = map_option ((#) x) (all_some xs)"

definition parse_device_serials :: "string \<Rightarrow> exn + pyval list" where
  "parse_device_serials serial_string =
     (case all_some (map (\<lambda>x. py_int_str (strip x)) (split_on (CHR '','') serial_string)) of
        None \<Rightarrow>
          Inl (PyError ''ValueError''
                 (''Invalid serial number passed. Must be integers separated by commas. Received: ''
                  @ serial_string))
      | Some ns \<Rightarrow>
          Inr (map (\<lambda>n. PyDict [(''name'', PyNone), (''serial'', PyInt n)]) ns))"

text \<open>\<^verbatim>\<open>os.makedirs(path, exist_ok=True)\<close>: a path that is not a string is a type error.\<close>

definition os_makedirs :: "world \<Rightarrow> pyval \<Rightarrow> state \<Rightarrow> (exn + string) \<times> state" where
  "os_makedirs w path st =
     (case path of
        PyStr p \<Rightarrow>
          (case makedirs_raises w (trace st) p of
             Some e \<Rightarrow> (Inl e, emit (EvMakedirs p) st)
           | None \<Rightarrow> (Inr p, emit (EvMakedirs p) st))
      | _ \<Rightarrow> (Inl (PyError ''TypeError'' ''expected str, bytes or os.PathLike object''), st))"

text \<open>
  Lines 11 to 45. Only what can raise, and what reaches the outside, is kept: the
  look-ups in the configuration, the log directory and the log file.
\<close>

definition setup_logging :: "world \<Rightarrow> pyval \<Rightarrow> state \<Rightarrow> exn option \<times> state" where
  "setup_logging w config st =
     (case py_get config ''logging'' (PyDict []) of
        Inl e \<Rightarrow> (Some e, st)
      | Inr lg \<Rightarrow>
     (case py_get lg ''enabled'' (PyBool False) of
        Inl e \<Rightarrow> (Some e, st)
      | Inr en \<Rightarrow>
          if \<not> py_truthy en then (None, st)
          else
     (case py_get lg ''logfile'' (PyDict []) of
        Inl e \<Rightarrow> (Some e, st)
      | Inr logfile_config \<Rightarrow>
     (case py_get logfile_config ''enabled'' (PyBool False) of
        Inl e \<Rightarrow> (Some e, st)
      | Inr en2 \<Rightarrow>
          if \<not> py_truthy en2 then (None, st)
          else
     (case py_get logfile_config ''path'' (PyStr ''logs'') of
        Inl e \<Rightarrow> (Some e, st)
      | Inr log_path \<Rightarrow>
     (case os_makedirs w log_path st of
        (Inl e, st1) \<Rightarrow> (Some e, st1)
      | (Inr lp, st1) \<Rightarrow>
     (let dt = strftime ''%Y-%m-%d'' (clock w (trace st1));
          log_file = ''WavePlusPlus-'' @ dt @ ''.log'';
          log_file_path = os_path_join lp log_file;
          st2 = emit (EvFileHandler log_file_path) st1
      in case file_handler_raises w (trace st1) log_file_path of
           Some e \<Rightarrow> (Some e, st2)
         | None \<Rightarrow> (None, st2))))))))"

text \<open>
  Lines 83 to 99: the devices, the configuration and the output path, from the command
  line or from the configuration file.
\<close>

definition devices_from_cli :: "string \<Rightarrow> state \<Rightarrow> (exn + (pyval \<times> pyval \<times> pyval)) \<times> state" where
  "devices_from_cli serial_string st =
     (case parse_device_serials serial_string of
        Inl e \<Rightarrow> (Inl e, st)
      | Inr devices \<Rightarrow>
          (Inr (PyList devices,
                PyDict [(''logging'', PyDict [(''enabled'', PyBool True)])],
                PyStr ''data''), st))"

definition devices_from_config :: "world \<Rightarrow> state \<Rightarrow> (exn + (pyval \<times> pyval \<times> pyval)) \<times> state" where
  "devices_from_config w st =
     (case load_config w (arg_config w) st of
        (Inl e, st1) \<Rightarrow> (Inl e, st1)
      | (Inr config, st1) \<Rightarrow>
          if \<not> py_truthy config
          then (Inl (PyError ''FileNotFoundError''
                       ''No devices passed and no config.json found.''), st1)
          else
     (case py_get config ''devices'' (PyList []) of
        Inl e \<Rightarrow> (Inl e, st1)
      | Inr devices \<Rightarrow>
     (case py_get config ''output'' (PyDict []) of
        Inl e \<Rightarrow> (Inl e, st1)
      | Inr out \<Rightarrow>
     (case py_get out ''path'' (PyStr ''data'') of
        Inl e \<Rightarrow> (Inl e, st1)
      | Inr data_path \<Rightarrow> (Inr (devices, config, data_path), st1)))))"

text \<open>\<^verbatim>\<open>if args.device_serial:\<close> is false for an option that is absent or empty.\<close>

definition resolve_devices :: "world \<Rightarrow> state \<Rightarrow> (exn + (pyval \<times> pyval \<times> pyval)) \<times> state" where
  "resolve_devices w st =
     (case arg_device_serial w of
        None \<Rightarrow> devices_from_config w st
      | Some s \<Rightarrow> if s \<noteq> [] then devices_from_cli s st else devices_from_config w st)"

text \<open>Lines 72 to 156. The result is the exception that leaves \<^verbatim>\<open>main\<close>, if any.\<close>

definition main :: "world \<Rightarrow> state \<Rightarrow> exn option \<times> state" where
  "main w st =
     (case resolve_devices w st of
        (Inl e, st1) \<Rightarrow> (Some e, st1)
      | (Inr (devices, config, data_path), st1) \<Rightarrow>
     (case setup_logging w config st1 of
        (Some e, st2) \<Rightarrow> (Some e, st2)
      | (None, st2) \<Rightarrow>
     (let st3 = emit (EvLog INFO [Lit ''Script Initialized'']) st2
      in case os_makedirs w data_path st3 of
           (Inl e, st4) \<Rightarrow> (Some e, st4)
         | (Inr dp, st4) \<Rightarrow>
     (let st5 = emit (EvLog INFO [Lit ''Output path: '', Val data_path]) st4
      in case py_iter devices of
           Inl e \<Rightarrow> (Some e, st5)
         | Inr ds \<Rightarrow> for_devices w dp ds st5))))"

section \<open>The process: lines 158 to 166\<close>

datatype outcome = Completed | SysExit nat | Uncaught exn

definition init_state :: state where
  "init_state = \<lparr>trace = [], waveplus = None, sensors = PyNone\<rparr>"

definition run_script :: "world \<Rightarrow> outcome \<times> state" where
  "run_script w =
     (case main w init_state of
        (None, st) \<Rightarrow> (Completed, st)
      | (Some e, st) \<Rightarrow>
          if e = KeyboardInterrupt
          then (SysExit 0, emit (EvLog INFO [Lit ''Script interrupted by user'']) st)
          else if is_Exception e
          then (SysExit 1, emit (EvLog ERROR [Lit ''Script failed with error: '', Err e]) st)
          else (Uncaught e, st))"

text \<open>
  The exit status of the process. A script that runs to its end exits with status 0;
  \<^verbatim>\<open>sys.exit(n)\<close> exits with status \<open>n\<close>. What the interpreter does with an exception the
  guard does not catch is not in the script, and has no status here.
\<close>

fun exit_status :: "outcome \<Rightarrow> nat option" where
  "exit_status Completed = Some 0"
| "exit_status (SysExit n) = Some n"
| "exit_status (Uncaught e) = None"

section \<open>What the device client answers in one attempt\<close>

text \<open>
  The answers of the device client in an attempt that starts after the events \<open>tr\<close>,
  read off the world at the histories the attempt asks them at.

  \<open>clean_success\<close>: the constructor, \<^verbatim>\<open>connect\<close>, \<^verbatim>\<open>read\<close> and the \<^verbatim>\<open>disconnect\<close> of the
  \<^verbatim>\<open>try\<close> block raise nothing, and \<^verbatim>\<open>read\<close> returns the truthy value \<open>v\<close>.
\<close>

definition clean_success :: "world \<Rightarrow> int \<Rightarrow> event list \<Rightarrow> pyval \<Rightarrow> bool" where
  "clean_success w serial tr v =
     (let oid = fresh_id tr in
        client_new w tr serial = None
      \<and> client_connect w (tr @ [EvNew oid serial]) oid = None
      \<and> client_read w (tr @ [EvNew oid serial, EvConnect oid]) oid = Inr v
      \<and> client_disconnect w (tr @ [EvNew oid serial, EvConnect oid, EvRead oid]) oid = None
      \<and> py_truthy v)"

text \<open>\<open>read_returns\<close>: \<^verbatim>\<open>connect\<close> raises nothing and \<^verbatim>\<open>read\<close> returns a value.\<close>

definition read_returns :: "world \<Rightarrow> int \<Rightarrow> event list \<Rightarrow> bool" where
  "read_returns w serial tr =
     (let oid = fresh_id tr in
        client_connect w (tr @ [EvNew oid serial]) oid = None
      \<and> (case client_read w (tr @ [EvNew oid serial, EvConnect oid]) oid of
            Inl e \<Rightarrow> False
          | Inr v \<Rightarrow> True))"

text \<open>The events of an attempt that ends with \<^verbatim>\<open>break\<close>.\<close>

definition success_events :: "nat \<Rightarrow> int \<Rightarrow> event list" where
  "success_events oid serial =
     [EvNew oid serial, EvConnect oid, EvRead oid, EvDisconnect oid,
      EvLog INFO [Lit ''Successfully queried device.''], EvDisconnect oid]"

text \<open>The events a function adds: those of the later trace that come after the earlier one.\<close>

definition events_since :: "state \<Rightarrow> state \<Rightarrow> event list" where
  "events_since st st' = drop (length (trace st)) (trace st')"

text \<open>The state in which the retry loop of a device starts (lines 114 and 116).\<close>

definition query_start :: "pyval \<Rightarrow> int \<Rightarrow> state \<Rightarrow> state" where
  "query_start device_name serial st = (emit (querying_log device_name serial) st)\<lparr>sensors := PyNone\<rparr>"

text \<open>The record the process guard logs for the exception \<open>e\<close> (line 165).\<close>

definition script_failed_log :: "exn \<Rightarrow> event" where
  "script_failed_log e = EvLog ERROR [Lit ''Script failed with error: '', Err e]"

definition no_config_error :: exn where
  "no_config_error = PyError ''FileNotFoundError'' ''No devices passed and no config.json found.''"

text \<open>
  The events the retry loop can add: calls of the device client, sleeps and log
  records. It never creates a directory, opens a log file or writes an output file.
\<close>

fun is_loop_event :: "event \<Rightarrow> bool" where
  "is_loop_event (EvMakedirs p) = False"
| "is_loop_event (EvFileHandler p) = False"
| "is_loop_event (EvJsonDump path doc indent sk) = False"
| "is_loop_event e = True"

text \<open>\<open>st'\<close> has the events of \<open>st\<close> and then only events that satisfy \<open>P\<close>.\<close>

definition extends_with :: "(event \<Rightarrow> bool) \<Rightarrow> state \<Rightarrow> state \<Rightarrow> bool" where
  "extends_with P st st' =
     (take (length (trace st)) (trace st') = trace st \<and> list_all P (events_since st st'))"

text \<open>The path of the output file that \<open>save_data\<close> writes in state \<open>st\<close> (lines 147 to 149).\<close>

definition data_file_path_of :: "world \<Rightarrow> string \<Rightarrow> int \<Rightarrow> state \<Rightarrow> string" where
  "data_file_path_of w data_path serial st =
     os_path_join data_path
       (data_file_name serial (strftime ''%Y-%m-%d-%H-%M-%S'' (clock w (trace st))))"

text \<open>The record of line 156.\<close>

definition save_failed_log :: "string \<Rightarrow> exn \<Rightarrow> event" where
  "save_failed_log p e =
     EvLog ERROR [Lit ''Failed to save data to '', Val (PyStr p), Lit '': '', Err e]"

text \<open>The record of line 154.\<close>

definition data_saved_log :: "string \<Rightarrow> event" where
  "data_saved_log p = EvLog INFO [Lit ''Data saved to '', Val (PyStr p)]"

text \<open>
  The documents that the writes among the events \<open>es\<close> leave behind, as path and
  content, in order. \<open>hist\<close> holds the events before \<open>es\<close>. A write leaves its document
  when \<^verbatim>\<open>open\<close> and \<^verbatim>\<open>json.dump\<close> raise nothing, which is what the world answers at the
  events before the write; a write that raises leaves no document.
\<close>

fun written_from :: "world \<Rightarrow> event list \<Rightarrow> event list \<Rightarrow> (string \<times> pyval) list" where
  "written_from w hist [] = []"
| "written_from w hist (EvJsonDump path doc indent sk # es) =
     (if json_dump_raises w hist path doc = None
      then (path, doc) # written_from w (hist @ [EvJsonDump path doc indent sk]) es
      else written_from w (hist @ [EvJsonDump path doc indent sk]) es)"
| "written_from w hist (e # es) = written_from w (hist @ [e]) es"

section \<open>Example worlds\<close>

definition t_example :: datetime where
  "t_example = \<lparr>dt_year = 2024, dt_month = 3, dt_day = 9,
                 dt_hour = 7, dt_minute = 5, dt_second = 1\<rparr>"

definition snapshot_example :: pyval where
  "snapshot_example = PyDict [(''radon'', PyInt 12), (''humidity'', PyInt 40)]"

text \<open>
  The device with serial 7 is given on the command line. Every call succeeds and
  \<^verbatim>\<open>read\<close> returns a snapshot.
\<close>

definition w_good :: world where
  "w_good =
     \<lparr>arg_config = ''config.json'', arg_device_serial = Some ''7'',
      config_exists = (\<lambda>p. False), config_load = (\<lambda>p. Inr PyNone),
      client_new = (\<lambda>tr serial. None), client_connect = (\<lambda>tr oid. None),
      client_read = (\<lambda>tr oid. Inr snapshot_example),
      client_disconnect = (\<lambda>tr oid. None),
      sleep_raises = (\<lambda>tr. None), makedirs_raises = (\<lambda>tr p. None),
      file_handler_raises = (\<lambda>tr p. None), clock = (\<lambda>tr. t_example),
      json_dump_raises = (\<lambda>tr p doc. None)\<rparr>"

text \<open>\<^verbatim>\<open>read\<close> returns an empty mapping on the first two connections, then a snapshot.\<close>

definition w_third :: world where
  "w_third = w_good\<lparr>client_read := (\<lambda>tr oid. if oid < 2 then Inr (PyDict []) else Inr snapshot_example)\<rparr>"

text \<open>\<^verbatim>\<open>read\<close> always returns an empty mapping.\<close>

definition w_empty :: world where
  "w_empty = w_good\<lparr>client_read := (\<lambda>tr oid. Inr (PyDict []))\<rparr>"

text \<open>\<^verbatim>\<open>connect\<close> always raises.\<close>

definition w_unreachable :: world where
  "w_unreachable = w_good\<lparr>client_connect := (\<lambda>tr oid. Some (PyError ''BTLEException'' ''Failed to connect''))\<rparr>"

text \<open>\<^verbatim>\<open>read\<close> returns a snapshot, and \<^verbatim>\<open>disconnect\<close> always raises.\<close>

definition w_disconnect_fails :: world where
  "w_disconnect_fails = w_good\<lparr>client_disconnect := (\<lambda>tr oid. Some (PyError ''BTLEException'' ''Failed to disconnect''))\<rparr>"

text \<open>
  The first constructor call succeeds and every later one raises; \<^verbatim>\<open>connect\<close> always
  raises.
\<close>

definition w_stale :: world where
  "w_stale = w_good
     \<lparr>client_new := (\<lambda>tr serial. if fresh_id tr = 0 then None
                                  else Some (PyError ''BTLEException'' ''No adapter'')),
      client_connect := (\<lambda>tr oid. Some (PyError ''BTLEException'' ''Failed to connect''))\<rparr>"

text \<open>The output file cannot be written.\<close>

definition w_write_fails :: world where
  "w_write_fails = w_good\<lparr>json_dump_raises := (\<lambda>tr p doc. Some (PyError ''PermissionError'' ''Permission denied''))\<rparr>"

text \<open>No serial on the command line, and no configuration file.\<close>

definition w_no_config :: world where
  "w_no_config = w_good\<lparr>arg_device_serial := None\<rparr>"

text \<open>No serial on the command line, and a configuration file whose device list is empty.\<close>

definition w_empty_list :: world where
  "w_empty_list = w_good
     \<lparr>arg_device_serial := None, config_exists := (\<lambda>p. True),
      config_load := (\<lambda>p. Inr (PyDict [(''devices'', PyList [])]))\<rparr>"

text \<open>The user interrupts the first \<^verbatim>\<open>read\<close>.\<close>

definition w_interrupted :: world where
  "w_interrupted = w_good\<lparr>client_read := (\<lambda>tr oid. Inl KeyboardInterrupt)\<rparr>"

section \<open>The retry loop stops at the first success\<close>

lemma for_attempts_append:
  "for_attempts w serial (xs @ ys) st =
     (case for_attempts w serial xs st of
        (Fallthrough, st') \<Rightarrow> for_attempts w serial ys st'
      | (Break, st') \<Rightarrow> (Break, st')
      | (Raised e, st') \<Rightarrow> (Raised e, st'))"
  by (induction xs arbitrary: st) (auto split: prod.splits ctl.splits)

lemma attempt_once_clean_success:
  assumes "clean_success w serial (trace st) v"
  shows "attempt_once w serial a st =
           (Break, st\<lparr>trace := trace st @ success_events (fresh_id (trace st)) serial,
                      waveplus := Some (fresh_id (trace st)), sensors := v\<rparr>)"
  using assms
  by (simp add: clean_success_def attempt_once_def try_body_def finally_block_def emit_def
      success_events_def Let_def)



lemma try_body_new_count:
  "length (filter is_new (trace (snd (try_body w serial a st)))) = Suc (length (filter is_new (trace st)))"
  unfolding try_body_def Let_def
  by (cases "client_new w (trace st) serial";
      cases "client_connect w (trace (emit (EvNew (fresh_id (trace st)) serial) st)) (fresh_id (trace st))";
      cases "client_read w (trace (emit (EvConnect (fresh_id (trace st))) (emit (EvNew (fresh_id (trace st)) serial) st\<lparr>waveplus := Some (fresh_id (trace st))\<rparr>))) (fresh_id (trace st))";
      cases "client_disconnect w (trace (emit (EvRead (fresh_id (trace st))) (emit (EvConnect (fresh_id (trace st))) (emit (EvNew (fresh_id (trace st)) serial) st\<lparr>waveplus := Some (fresh_id (trace st))\<rparr>)))) (fresh_id (trace st))")
     (simp_all add: emit_def)

lemma except_handler_new_count:
  "length (filter is_new (trace (snd (except_handler w serial a e st)))) = length (filter is_new (trace st))"
  by (simp add: except_handler_def emit_def Let_def split: option.splits)

lemma finally_block_new_count:
  "length (filter is_new (trace (finally_block st))) = length (filter is_new (trace st))"
  by (simp add: finally_block_def emit_def split: option.splits)

lemma attempt_once_new_count:
  "length (filter is_new (trace (snd (attempt_once w serial a st)))) = Suc (length (filter is_new (trace st)))"
proof -
  obtain c st1 where tb: "try_body w serial a st = (c, st1)"
    by (cases "try_body w serial a st")
  have n1: "length (filter is_new (trace st1)) = Suc (length (filter is_new (trace st)))"
    using try_body_new_count [of w serial a st] tb by simp
  show ?thesis
  proof (cases c)
    case (Raised e)
    show ?thesis
    proof (cases "is_Exception e")
      case True
      obtain c2 st2 where eh: "except_handler w serial a e st1 = (c2, st2)"
        by (cases "except_handler w serial a e st1")
      have "length (filter is_new (trace st2)) = length (filter is_new (trace st1))"
        using except_handler_new_count [of w serial a e st1] eh by simp
      then show ?thesis
        using tb Raised True eh n1 by (simp add: attempt_once_def finally_block_new_count)
    next
      case False
      then show ?thesis
        using tb Raised n1 by (simp add: attempt_once_def finally_block_new_count)
    qed
  qed (use tb n1 in \<open>simp_all add: attempt_once_def finally_block_new_count\<close>)
qed

lemma for_attempts_exhausted_new_count:
  "for_attempts w serial xs st = (Fallthrough, st') \<Longrightarrow>
     length (filter is_new (trace st')) = length (filter is_new (trace st)) + length xs"
proof (induction xs arbitrary: st)
  case Nil
  then show ?case by simp
next
  case (Cons a xs)
  obtain c st1 where ao: "attempt_once w serial a st = (c, st1)"
    by (cases "attempt_once w serial a st")
  from Cons.prems ao have c: "c = Fallthrough" and rest: "for_attempts w serial xs st1 = (Fallthrough, st')"
    by (auto split: ctl.splits)
  have "length (filter is_new (trace st1)) = Suc (length (filter is_new (trace st)))"
    using attempt_once_new_count [of w serial a st] ao by simp
  with Cons.IH [OF rest] show ?case by simp
qed


text \<open>
  Claim C1. For every number of attempts \<open>N\<close> (the source has \<open>N = 5\<close>, which is
  \<open>acquire\<close>) and every \<open>k\<close> from 1 to \<open>N\<close>: when the loop reaches attempt \<open>k\<close> (the
  attempts before it were made and none of them left the loop) and in attempt \<open>k\<close> the
  device client raises nothing and \<^verbatim>\<open>read\<close> returns a non-empty snapshot \<open>v\<close>, the loop
  ends with \<^verbatim>\<open>break\<close> right after attempt \<open>k\<close>, \<open>sensors\<close> holds \<open>v\<close>, the last events
  are those of attempt \<open>k\<close> (one constructor call, one \<^verbatim>\<open>connect\<close>, one \<^verbatim>\<open>read\<close>), and
  exactly \<open>k\<close> attempts were started.
\<close>

theorem first_success_stops_loop:
  assumes k: "1 \<le> k" "k \<le> N"
    and reach: "for_attempts w serial [0..<k - 1] st = (Fallthrough, st1)"
    and ok: "clean_success w serial (trace st1) v"
  shows "fst (for_attempts w serial [0..<N] st) = Break
       \<and> sensors (snd (for_attempts w serial [0..<N] st)) = v
       \<and> trace (snd (for_attempts w serial [0..<N] st))
           = trace st1 @ success_events (fresh_id (trace st1)) serial
       \<and> length (filter is_new (trace (snd (for_attempts w serial [0..<N] st))))
           = length (filter is_new (trace st)) + k"
proof -
  have "[0..<(k - 1) + (N - (k - 1))] = [0..<k - 1] @ [k - 1..<(k - 1) + (N - (k - 1))]"
    by (rule upt_add_eq_append) simp
  moreover have "(k - 1) + (N - (k - 1)) = N"
    using k by simp
  moreover have "[k - 1..<N] = (k - 1) # [Suc (k - 1)..<N]"
    using k by (simp add: upt_conv_Cons)
  ultimately have split: "[0..<N] = [0..<k - 1] @ (k - 1) # [Suc (k - 1)..<N]"
    by simp
  have step: "attempt_once w serial (k - 1) st1 =
           (Break, st1\<lparr>trace := trace st1 @ success_events (fresh_id (trace st1)) serial,
                      waveplus := Some (fresh_id (trace st1)), sensors := v\<rparr>)"
    by (rule attempt_once_clean_success [OF ok])
  have run: "for_attempts w serial [0..<N] st =
           (Break, st1\<lparr>trace := trace st1 @ success_events (fresh_id (trace st1)) serial,
                      waveplus := Some (fresh_id (trace st1)), sensors := v\<rparr>)"
    using step by (simp only: split for_attempts_append reach) simp
  have cnt: "length (filter is_new (trace st1)) = length (filter is_new (trace st)) + (k - 1)"
    using for_attempts_exhausted_new_count [OF reach] by simp
  show ?thesis
    using run cnt k by (simp add: success_events_def)
qed


theorem first_success_stops_loop_witness:
  "fst (acquire w_third 7 init_state) = Break
   \<and> sensors (snd (acquire w_third 7 init_state)) = snapshot_example
   \<and> length (filter is_new (trace (snd (acquire w_third 7 init_state)))) = 3"
proof -
  have "fst (for_attempts w_third 7 [0..<3 - 1] init_state) = Fallthrough"
    by code_simp
  then have reach: "for_attempts w_third 7 [0..<3 - 1] init_state
      = (Fallthrough, snd (for_attempts w_third 7 [0..<3 - 1] init_state))"
    by (metis prod.collapse)
  have ok: "clean_success w_third 7 (trace (snd (for_attempts w_third 7 [0..<3 - 1] init_state))) snapshot_example"
    by code_simp
  have init: "length (filter is_new (trace init_state)) = 0"
    by (simp add: init_state_def)
  have k: "1 \<le> (3::nat)" "(3::nat) \<le> 5"
    by simp_all
  note th = first_success_stops_loop [OF k reach ok]
  from th have "fst (for_attempts w_third 7 [0..<5] init_state) = Break"
    and "sensors (snd (for_attempts w_third 7 [0..<5] init_state)) = snapshot_example"
    and "length (filter is_new (trace (snd (for_attempts w_third 7 [0..<5] init_state))))
          = length (filter is_new (trace init_state)) + 3"
    by blast+
  then show ?thesis
    unfolding acquire_def init by simp
qed

section \<open>Evaluating the script in a given world\<close>

lemma range_5: "[0..<5] = [0, 1, 2, 3, 4]"
  by code_simp
lemmas loop_defs = acquire_def attempt_once_def try_body_def except_handler_def finally_block_def
  emit_def fresh_id_def init_state_def Let_def range_5
lemmas main_defs = run_script_def main_def resolve_devices_def devices_from_cli_def
  devices_from_config_def load_config_def parse_device_serials_def setup_logging_def
  os_makedirs_def process_device_def resolve_device_def device_name_of_def save_data_def
  data_file_name_def querying_log_def giving_up_log_def
lemmas str_defs = py_int_str_def strip_def is_space_def is_digit_def digit_val_def str_int_def
  digit_char_def pad_def directive_def os_path_join_def

lemmas attempt_defs = attempt_once_def try_body_def except_handler_def finally_block_def
  emit_def Let_def

section \<open>Sleeping between attempts\<close>

text \<open>
  Claim C2. The claim says that a device whose every \<^verbatim>\<open>read\<close> returns an empty result is
  tried five times with four sleeps in between. In the world \<open>w_empty\<close> the loop makes
  five attempts and gives up, but never sleeps: the branch for an empty result logs
  ``Trying again in 5 seconds.'' and goes on at once. Only the exception handler sleeps.
\<close>

theorem empty_results_are_not_followed_by_sleep:
  "fst (acquire w_empty 7 init_state) = Fallthrough
   \<and> length (filter is_new (trace (snd (acquire w_empty 7 init_state)))) = 5
   \<and> filter is_sleep (trace (snd (acquire w_empty 7 init_state))) = []"
  by (simp add: loop_defs w_empty_def w_good_def)

text \<open>
  The other half of the claim holds: a device whose \<^verbatim>\<open>connect\<close> always raises is tried
  five times, with four sleeps.
\<close>

lemma unreachable_device_sleeps_four_times:
  "fst (acquire w_unreachable 7 init_state) = Fallthrough
   \<and> length (filter is_new (trace (snd (acquire w_unreachable 7 init_state)))) = 5
   \<and> length (filter is_sleep (trace (snd (acquire w_unreachable 7 init_state)))) = 4"
  by (simp add: loop_defs w_unreachable_def w_good_def)

section \<open>Disconnecting\<close>

text \<open>
  Claim C3, as amended. In every attempt whose constructor call succeeds, \<^verbatim>\<open>disconnect\<close>
  is called on the connection of that attempt, and on no other: exactly once (in the
  \<^verbatim>\<open>finally\<close> block) when \<^verbatim>\<open>connect\<close> or \<^verbatim>\<open>read\<close> raises, and exactly twice (in the
  \<^verbatim>\<open>try\<close> block and again in the \<^verbatim>\<open>finally\<close> block) when \<^verbatim>\<open>read\<close> returns, whether its
  result is empty or not and whether the first \<^verbatim>\<open>disconnect\<close> raises or not.
\<close>

theorem disconnects_per_attempt:
  assumes new: "client_new w (trace st) serial = None"
  shows "filter is_disconnect (events_since st (snd (attempt_once w serial a st))) =
           (if read_returns w serial (trace st)
            then [EvDisconnect (fresh_id (trace st)), EvDisconnect (fresh_id (trace st))]
            else [EvDisconnect (fresh_id (trace st))])"
proof (cases "client_connect w (trace st @ [EvNew (fresh_id (trace st)) serial]) (fresh_id (trace st))")
  case (Some e)
  then show ?thesis
    using new
    by (simp add: attempt_defs events_since_def read_returns_def split: option.splits)
next
  case None
  note conn = None
  show ?thesis
  proof (cases "client_read w (trace st @ [EvNew (fresh_id (trace st)) serial, EvConnect (fresh_id (trace st))])
                  (fresh_id (trace st))")
    case (Inl e)
    then show ?thesis
      using new conn
      by (simp add: attempt_defs events_since_def read_returns_def split: option.splits)
  next
    case (Inr v)
    note rd = Inr
    show ?thesis
    proof (cases "client_disconnect w
                    (trace st @ [EvNew (fresh_id (trace st)) serial, EvConnect (fresh_id (trace st)),
                                 EvRead (fresh_id (trace st))])
                    (fresh_id (trace st))")
      case (Some e)
      then show ?thesis
        using new conn rd
        by (simp add: attempt_defs events_since_def read_returns_def split: option.splits)
    next
      case None
      then show ?thesis
        using new conn rd
        by (simp add: attempt_defs events_since_def read_returns_def)
    qed
  qed
qed

theorem disconnects_per_attempt_witness:
  "client_new w_unreachable (trace init_state) 7 = None
   \<and> \<not> read_returns w_unreachable 7 (trace init_state)
   \<and> filter is_disconnect (events_since init_state (snd (attempt_once w_unreachable 7 0 init_state)))
       = [EvDisconnect 0]
   \<and> client_new w_good (trace init_state) 7 = None
   \<and> read_returns w_good 7 (trace init_state)
   \<and> length (filter is_disconnect (events_since init_state (snd (attempt_once w_good 7 0 init_state))))
       = 2"
proof -
  have n1: "client_new w_unreachable (trace init_state) 7 = None"
    by (simp add: w_unreachable_def w_good_def)
  have r1: "\<not> read_returns w_unreachable 7 (trace init_state)"
    by (simp add: read_returns_def w_unreachable_def w_good_def)
  have n2: "client_new w_good (trace init_state) 7 = None"
    by (simp add: w_good_def)
  have r2: "read_returns w_good 7 (trace init_state)"
    by (simp add: read_returns_def w_good_def)
  have f: "fresh_id (trace init_state) = 0"
    by (simp add: fresh_id_def init_state_def)
  show ?thesis
    using n1 r1 n2 r2 f disconnects_per_attempt [OF n1, of 0] disconnects_per_attempt [OF n2, of 0]
    by simp
qed

text \<open>
  Claim C3, as stated, fails: in an attempt that succeeds, \<^verbatim>\<open>disconnect\<close> is called twice
  on the connection, not once.
\<close>

theorem successful_attempt_disconnects_twice:
  "filter is_disconnect (events_since init_state (snd (attempt_once w_good 7 0 init_state)))
     = [EvDisconnect 0, EvDisconnect 0]
   \<and> length (filter is_disconnect (events_since init_state (snd (attempt_once w_good 7 0 init_state))))
     \<noteq> 1"
  by (simp add: attempt_defs fresh_id_def events_since_def init_state_def w_good_def)

text \<open>
  Claim C4. The claim says that a failure of \<^verbatim>\<open>disconnect\<close> never changes the outcome of
  an attempt. In the world \<open>w_disconnect_fails\<close> every \<^verbatim>\<open>read\<close> returns a snapshot and
  every \<^verbatim>\<open>disconnect\<close> raises. The \<^verbatim>\<open>disconnect\<close> of the \<^verbatim>\<open>try\<close> block stands before the
  test of \<open>sensors\<close>, so its exception reaches the handler: the attempt does not end with
  \<^verbatim>\<open>break\<close> although \<open>sensors\<close> holds the snapshot, the loop gives up after five attempts,
  and the run ends without writing an output file.
\<close>

theorem disconnect_failure_discards_reading:
  "fst (attempt_once w_disconnect_fails 7 0 init_state) = Fallthrough
   \<and> sensors (snd (attempt_once w_disconnect_fails 7 0 init_state)) = snapshot_example
   \<and> fst (acquire w_disconnect_fails 7 init_state) = Fallthrough
   \<and> fst (run_script w_disconnect_fails) = Completed
   \<and> filter is_dump (trace (snd (run_script w_disconnect_fails))) = []"
  by (simp add: loop_defs main_defs str_defs w_disconnect_fails_def w_good_def)

text \<open>
  Claim C5. The claim says that no attempt operates on the connection of another
  attempt. In the world \<open>w_stale\<close> the first attempt creates connection 0 and fails in
  \<^verbatim>\<open>connect\<close>; in the second attempt the constructor raises, the name \<^verbatim>\<open>waveplus\<close> is still
  bound to connection 0, and the \<^verbatim>\<open>finally\<close> block calls \<^verbatim>\<open>disconnect\<close> on it.
\<close>

theorem failed_constructor_disconnects_stale_object:
  "events_since init_state (snd (attempt_once w_stale 7 0 init_state))
     = [EvNew 0 7, EvConnect 0,
        EvLog ERROR [Lit ''Error querying device '', Val (PyInt 7), Lit '': '',
                     Err (PyError ''BTLEException'' ''Failed to connect'')],
        EvSleep 5, EvDisconnect 0]
   \<and> events_since (snd (attempt_once w_stale 7 0 init_state))
        (snd (attempt_once w_stale 7 1 (snd (attempt_once w_stale 7 0 init_state))))
     = [EvNew 1 7,
        EvLog ERROR [Lit ''Error querying device '', Val (PyInt 7), Lit '': '',
                     Err (PyError ''BTLEException'' ''No adapter'')],
        EvSleep 5, EvDisconnect 0]"
  by (simp add: loop_defs events_since_def w_stale_def w_good_def)

section \<open>The display name\<close>

text \<open>
  Claim C7. The claim says that a descriptor without a display name is shown as
  \<^verbatim>\<open>Device-<serial>\<close>, also when it comes from the command line. A descriptor from the
  command line has the key \<^verbatim>\<open>name\<close> with the value \<^verbatim>\<open>None\<close>, so \<^verbatim>\<open>device.get\<close> finds the key
  and returns \<^verbatim>\<open>None\<close>: the record of line 114 shows \<^verbatim>\<open>None\<close>, and the synthesized name is
  not used.
\<close>

theorem cli_descriptor_name_is_none:
  "parse_device_serials ''7'' = Inr [PyDict [(''name'', PyNone), (''serial'', PyInt 7)]]
   \<and> resolve_device (PyDict [(''name'', PyNone), (''serial'', PyInt 7)]) = Inr (7, PyNone)
   \<and> querying_log PyNone 7 \<in> set (trace (snd (run_script w_good)))
   \<and> querying_log (PyStr ''Device-7'') 7 \<notin> set (trace (snd (run_script w_good)))"
  by (simp add: loop_defs main_defs str_defs w_good_def t_example_def snapshot_example_def)

section \<open>The exit status\<close>

text \<open>
  Claim C9, as stated, fails: with no serial on the command line and a configuration
  file whose device list is empty, the run is not fatal. It processes no device, logs
  no error and ends normally, with exit status 0.
\<close>

theorem empty_device_list_is_not_fatal:
  "fst (run_script w_empty_list) = Completed
   \<and> exit_status (fst (run_script w_empty_list)) = Some 0
   \<and> trace (snd (run_script w_empty_list))
       = [EvLog INFO [Lit ''Script Initialized''], EvMakedirs ''data'',
          EvLog INFO [Lit ''Output path: '', Val (PyStr ''data'')]]"
  by (simp add: loop_defs main_defs str_defs w_empty_list_def w_good_def)

lemma devices_from_config_unusable:
  assumes cfg: "\<not> config_exists w (arg_config w)
               \<or> (case config_load w (arg_config w) of
                     Inl e \<Rightarrow> is_Exception e
                   | Inr v \<Rightarrow> \<not> py_truthy v)"
  shows "fst (devices_from_config w st) = Inl no_config_error
       \<and> extends_with (\<lambda>e. e \<noteq> script_failed_log no_config_error) st (snd (devices_from_config w st))"
  using cfg
  by (auto simp add: devices_from_config_def load_config_def no_config_error_def emit_def
      extends_with_def events_since_def script_failed_log_def
      split: sum.splits)

text \<open>
  Claim C9, as amended. When no serial is given on the command line (the option is
  absent or empty) and the configuration file is absent, cannot be loaded, or holds an
  empty document, the run is fatal: \<^verbatim>\<open>main\<close> raises \<^verbatim>\<open>FileNotFoundError\<close>, the process
  guard logs it exactly once, as the last record, and the process exits with status 1.
\<close>

theorem missing_config_is_fatal:
  assumes cli: "arg_device_serial w = None \<or> arg_device_serial w = Some []"
    and cfg: "\<not> config_exists w (arg_config w)
              \<or> (case config_load w (arg_config w) of
                    Inl e \<Rightarrow> is_Exception e
                  | Inr v \<Rightarrow> \<not> py_truthy v)"
  shows "fst (run_script w) = SysExit 1
       \<and> exit_status (fst (run_script w)) = Some 1
       \<and> filter (\<lambda>e. e = script_failed_log no_config_error) (trace (snd (run_script w)))
           = [script_failed_log no_config_error]
       \<and> last (trace (snd (run_script w))) = script_failed_log no_config_error"
proof -
  obtain r st1 where d: "devices_from_config w init_state = (r, st1)"
    by (cases "devices_from_config w init_state")
  from devices_from_config_unusable [OF cfg, of init_state] d
  have r: "r = Inl no_config_error"
    and ext: "extends_with (\<lambda>e. e \<noteq> script_failed_log no_config_error) init_state st1"
    by simp_all
  have res: "resolve_devices w init_state = (Inl no_config_error, st1)"
    using cli d r by (auto simp add: resolve_devices_def)
  have m: "main w init_state = (Some no_config_error, st1)"
    using res by (simp add: main_def)
  have run: "run_script w = (SysExit 1, emit (script_failed_log no_config_error) st1)"
    using m by (simp add: run_script_def no_config_error_def script_failed_log_def)
  have none: "filter (\<lambda>e. e = script_failed_log no_config_error) (trace st1) = []"
    using ext
    by (simp add: extends_with_def events_since_def init_state_def list_all_iff filter_empty_conv)
  show ?thesis
    using run none by (simp add: emit_def)
qed

theorem missing_config_is_fatal_witness:
  "(arg_device_serial w_no_config = None \<or> arg_device_serial w_no_config = Some [])
   \<and> \<not> config_exists w_no_config (arg_config w_no_config)
   \<and> fst (run_script w_no_config) = SysExit 1
   \<and> exit_status (fst (run_script w_no_config)) = Some 1
   \<and> trace (snd (run_script w_no_config)) = [script_failed_log no_config_error]"
proof -
  have cli: "arg_device_serial w_no_config = None \<or> arg_device_serial w_no_config = Some []"
    by (simp add: w_no_config_def w_good_def)
  have ne: "\<not> config_exists w_no_config (arg_config w_no_config)"
    by (simp add: w_no_config_def w_good_def)
  have cfg: "\<not> config_exists w_no_config (arg_config w_no_config)
              \<or> (case config_load w_no_config (arg_config w_no_config) of
                    Inl e \<Rightarrow> is_Exception e
                  | Inr v \<Rightarrow> \<not> py_truthy v)"
    using ne by simp
  have tr: "trace (snd (run_script w_no_config)) = [script_failed_log no_config_error]"
    by (simp add: loop_defs main_defs str_defs w_no_config_def w_good_def no_config_error_def
        script_failed_log_def)
  show ?thesis
    using cli ne tr missing_config_is_fatal [OF cli cfg] by simp
qed

text \<open>
  Claim C10. The process exits with status 0 when \<^verbatim>\<open>main\<close> returns, with status 0 when
  a \<^verbatim>\<open>KeyboardInterrupt\<close> leaves \<^verbatim>\<open>main\<close>, and with status 1 when an exception of class
  \<^verbatim>\<open>Exception\<close> leaves \<^verbatim>\<open>main\<close>.
\<close>

theorem exit_status_of_run:
  "(fst (main w init_state) = None \<longrightarrow> exit_status (fst (run_script w)) = Some 0)
   \<and> (fst (main w init_state) = Some KeyboardInterrupt \<longrightarrow>
        exit_status (fst (run_script w)) = Some 0)
   \<and> (\<forall>e. fst (main w init_state) = Some e \<and> is_Exception e \<longrightarrow>
        exit_status (fst (run_script w)) = Some 1)"
  by (cases "main w init_state") (auto simp add: run_script_def)

theorem exit_status_of_run_witness:
  "fst (main w_good init_state) = None \<and> exit_status (fst (run_script w_good)) = Some 0
   \<and> fst (main w_interrupted init_state) = Some KeyboardInterrupt
   \<and> exit_status (fst (run_script w_interrupted)) = Some 0
   \<and> fst (main w_no_config init_state) = Some no_config_error \<and> is_Exception no_config_error
   \<and> exit_status (fst (run_script w_no_config)) = Some 1"
proof -
  have a: "fst (main w_good init_state) = None"
    by (simp add: loop_defs main_defs str_defs w_good_def t_example_def snapshot_example_def)
  have b: "fst (main w_interrupted init_state) = Some KeyboardInterrupt"
    by (simp add: loop_defs main_defs str_defs w_interrupted_def w_good_def)
  have c: "fst (main w_no_config init_state) = Some no_config_error \<and> is_Exception no_config_error"
    by (simp add: loop_defs main_defs str_defs w_no_config_def w_good_def no_config_error_def)
  show ?thesis
    using a b c exit_status_of_run [of w_good] exit_status_of_run [of w_interrupted]
      exit_status_of_run [of w_no_config]
    by blast
qed

section \<open>What the retry loop adds to the trace\<close>

lemma try_body_cases:
  obtains
    (new_raises) e where
      "client_new w (trace st) serial = Some e"
      "try_body w serial a st
         = (Raised e, st\<lparr>trace := trace st @ [EvNew (fresh_id (trace st)) serial]\<rparr>)"
  | (connect_raises) e where
      "client_new w (trace st) serial = None"
      "try_body w serial a st
         = (Raised e, st\<lparr>trace := trace st @ [EvNew (fresh_id (trace st)) serial,
                                                  EvConnect (fresh_id (trace st))],
                         waveplus := Some (fresh_id (trace st))\<rparr>)"
  | (read_raises) e where
      "client_new w (trace st) serial = None"
      "try_body w serial a st
         = (Raised e, st\<lparr>trace := trace st @ [EvNew (fresh_id (trace st)) serial,
                                                  EvConnect (fresh_id (trace st)),
                                                  EvRead (fresh_id (trace st))],
                         waveplus := Some (fresh_id (trace st))\<rparr>)"
  | (disconnect_raises) e v where
      "client_new w (trace st) serial = None"
      "try_body w serial a st
         = (Raised e, st\<lparr>trace := trace st @ [EvNew (fresh_id (trace st)) serial,
                                                  EvConnect (fresh_id (trace st)),
                                                  EvRead (fresh_id (trace st)),
                                                  EvDisconnect (fresh_id (trace st))],
                         waveplus := Some (fresh_id (trace st)), sensors := v\<rparr>)"
  | (success) v where
      "py_truthy v"
      "try_body w serial a st
         = (Break, st\<lparr>trace := trace st @ [EvNew (fresh_id (trace st)) serial,
                                              EvConnect (fresh_id (trace st)),
                                              EvRead (fresh_id (trace st)),
                                              EvDisconnect (fresh_id (trace st)),
                                              EvLog INFO [Lit ''Successfully queried device.'']],
                     waveplus := Some (fresh_id (trace st)), sensors := v\<rparr>)"
  | (empty) v where
      "\<not> py_truthy v"
      "try_body w serial a st
         = (Fallthrough,
            st\<lparr>trace := trace st @ [EvNew (fresh_id (trace st)) serial,
                                     EvConnect (fresh_id (trace st)),
                                     EvRead (fresh_id (trace st)),
                                     EvDisconnect (fresh_id (trace st)),
                                     EvLog WARNING
                                       [Lit ''Failed to query device on attempt '',
                                        Val (PyInt (int a + 1)),
                                        Lit ''. Trying again in 5 seconds.'']],
                waveplus := Some (fresh_id (trace st)), sensors := v\<rparr>)"
proof (cases "client_new w (trace st) serial")
  case (Some e)
  then show ?thesis
    by (intro new_raises [of e]) (simp_all add: try_body_def emit_def Let_def)
next
  case None
  note new = None
  show ?thesis
  proof (cases "client_connect w (trace st @ [EvNew (fresh_id (trace st)) serial]) (fresh_id (trace st))")
    case (Some e)
    then show ?thesis
      using new by (intro connect_raises [of e]) (simp_all add: try_body_def emit_def Let_def)
  next
    case None
    note conn = None
    show ?thesis
    proof (cases "client_read w (trace st @ [EvNew (fresh_id (trace st)) serial,
                                             EvConnect (fresh_id (trace st))])
                    (fresh_id (trace st))")
      case (Inl e)
      then show ?thesis
        using new conn by (intro read_raises [of e]) (simp_all add: try_body_def emit_def Let_def)
    next
      case (Inr v)
      note rd = Inr
      show ?thesis
      proof (cases "client_disconnect w
                      (trace st @ [EvNew (fresh_id (trace st)) serial,
                                   EvConnect (fresh_id (trace st)), EvRead (fresh_id (trace st))])
                      (fresh_id (trace st))")
        case (Some e)
        then show ?thesis
          using new conn rd
          by (intro disconnect_raises [of e v]) (simp_all add: try_body_def emit_def Let_def)
      next
        case None
        note disc = None
        show ?thesis
        proof (cases "py_truthy v")
          case True
          then show ?thesis
            using new conn rd disc
            by (intro success [of v]) (simp_all add: try_body_def emit_def Let_def)
        next
          case False
          then show ?thesis
            using new conn rd disc
            by (intro empty [of v]) (simp_all add: try_body_def emit_def Let_def)
        qed
      qed
    qed
  qed
qed

lemma extends_withI:
  "trace st' = trace st @ evs \<Longrightarrow> list_all P evs \<Longrightarrow> extends_with P st st'"
  by (simp add: extends_with_def events_since_def)

lemma extends_with_events:
  "extends_with P st st' \<Longrightarrow> trace st' = trace st @ events_since st st'"
  unfolding extends_with_def events_since_def
  by (metis append_take_drop_id)

lemma extends_with_refl: "extends_with P st st"
  by (simp add: extends_with_def events_since_def)

lemma extends_with_trans:
  assumes "extends_with P st st'" and "extends_with P st' st''"
  shows "extends_with P st st''"
proof -
  have a: "trace st' = trace st @ events_since st st'"
    using assms(1) by (rule extends_with_events)
  have b: "trace st'' = trace st' @ events_since st' st''"
    using assms(2) by (rule extends_with_events)
  have "trace st'' = trace st @ (events_since st st' @ events_since st' st'')"
    using a b by simp
  moreover have "list_all P (events_since st st' @ events_since st' st'')"
    using assms by (simp add: extends_with_def)
  ultimately show ?thesis
    by (rule extends_withI)
qed

lemma extends_with_emit: "P e \<Longrightarrow> extends_with P st (emit e st)"
  by (rule extends_withI [where evs = "[e]"]) (simp_all add: emit_def)

lemma try_body_extends: "extends_with is_loop_event st (snd (try_body w serial a st))"
  by (cases rule: try_body_cases [of w st serial a])
     (simp_all add: extends_with_def events_since_def)

lemma except_handler_extends:
  "extends_with is_loop_event st (snd (except_handler w serial a e st))"
  by (simp add: except_handler_def emit_def Let_def extends_with_def events_since_def
      split: option.splits)

lemma finally_block_extends: "extends_with is_loop_event st (finally_block st)"
  by (simp add: finally_block_def emit_def extends_with_def events_since_def split: option.splits)

lemma attempt_once_extends: "extends_with is_loop_event st (snd (attempt_once w serial a st))"
proof -
  obtain c st1 where tb: "try_body w serial a st = (c, st1)"
    by (cases "try_body w serial a st")
  have e1: "extends_with is_loop_event st st1"
    using try_body_extends [of st w serial a] tb by simp
  show ?thesis
  proof (cases "\<exists>e. c = Raised e \<and> is_Exception e")
    case True
    then obtain e where c: "c = Raised e" and ex: "is_Exception e"
      by blast
    obtain c2 st2 where eh: "except_handler w serial a e st1 = (c2, st2)"
      by (cases "except_handler w serial a e st1")
    have e2: "extends_with is_loop_event st1 st2"
      using except_handler_extends [of st1 w serial a e] eh by simp
    have "attempt_once w serial a st = (c2, finally_block st2)"
      using tb c ex eh by (simp add: attempt_once_def)
    then show ?thesis
      using extends_with_trans [OF extends_with_trans [OF e1 e2] finally_block_extends [of st2]]
      by simp
  next
    case False
    then have "attempt_once w serial a st = (c, finally_block st1)"
      using tb by (cases c) (auto simp add: attempt_once_def)
    then show ?thesis
      using extends_with_trans [OF e1 finally_block_extends [of st1]] by simp
  qed
qed

lemma for_attempts_extends:
  "extends_with is_loop_event st (snd (for_attempts w serial xs st))"
proof (induction xs arbitrary: st)
  case Nil
  show ?case by (simp add: extends_with_refl)
next
  case (Cons a xs)
  obtain c st1 where ao: "attempt_once w serial a st = (c, st1)"
    by (cases "attempt_once w serial a st")
  have e1: "extends_with is_loop_event st st1"
    using attempt_once_extends [of st w serial a] ao by simp
  show ?case
  proof (cases c)
    case Fallthrough
    then show ?thesis
      using ao extends_with_trans [OF e1 Cons.IH [of st1]] by simp
  qed (use ao e1 in simp_all)
qed

lemma attempt_once_break_truthy:
  assumes "attempt_once w serial a st = (Break, st')"
  shows "py_truthy (sensors st')"
proof (cases rule: try_body_cases [of w st serial a])
  case (success v)
  then show ?thesis
    using assms by (auto simp add: attempt_once_def finally_block_def emit_def)
next
  case (empty v)
  then show ?thesis
    using assms by (auto simp add: attempt_once_def)
qed (use assms in \<open>auto simp add: attempt_once_def except_handler_def Let_def
       split: if_splits option.splits\<close>)

lemma for_attempts_break_truthy:
  "for_attempts w serial xs st = (Break, st') \<Longrightarrow> py_truthy (sensors st')"
proof (induction xs arbitrary: st)
  case Nil
  then show ?case by simp
next
  case (Cons a xs)
  obtain c st1 where ao: "attempt_once w serial a st = (c, st1)"
    by (cases "attempt_once w serial a st")
  show ?case
  proof (cases c)
    case Fallthrough
    then show ?thesis
      using Cons ao by simp
  next
    case Break
    then show ?thesis
      using Cons.prems ao attempt_once_break_truthy [of w serial a st st1] by simp
  next
    case (Raised e)
    then show ?thesis
      using Cons.prems ao by simp
  qed
qed

section \<open>The output file\<close>

lemma strftime_timestamp:
  "strftime ''%Y-%m-%d-%H-%M-%S'' t
     = digits_of (dt_year t) @ ''-'' @ pad 2 (dt_month t) @ ''-'' @ pad 2 (dt_day t) @ ''-''
       @ pad 2 (dt_hour t) @ ''-'' @ pad 2 (dt_minute t) @ ''-'' @ pad 2 (dt_second t)"
  by (simp add: directive_def)

lemma loop_events_no_dump: "list_all is_loop_event evs \<Longrightarrow> filter is_dump evs = []"
proof (induction evs)
  case Nil
  show ?case by simp
next
  case (Cons e evs)
  then show ?case by (cases e) simp_all
qed

lemma save_data_dumps:
  "\<exists>rest. trace (snd (save_data w data_path serial st))
            = trace st @ EvJsonDump (data_file_path_of w data_path serial st) (sensors st) 4 False # rest
          \<and> filter is_dump rest = []"
  by (cases "json_dump_raises w (trace st) (data_file_path_of w data_path serial st) (sensors st)")
     (simp_all add: save_data_def data_file_path_of_def emit_def Let_def)

lemma process_device_break:
  assumes res: "resolve_device device = Inr (serial, device_name)"
    and acq: "acquire w serial (query_start device_name serial st) = (Break, st3)"
  shows "process_device w data_path device st = save_data w data_path serial st3"
  using res acq by (simp add: process_device_def query_start_def Let_def)

lemma process_device_exhausted:
  assumes res: "resolve_device device = Inr (serial, device_name)"
    and acq: "acquire w serial (query_start device_name serial st) = (Fallthrough, st3)"
  shows "process_device w data_path device st = (None, emit (giving_up_log serial) st3)"
  using res acq by (simp add: process_device_def query_start_def Let_def)

lemma written_from_append:
  "written_from w hist (es @ fs) = written_from w hist es @ written_from w (hist @ es) fs"
proof (induction es arbitrary: hist)
  case Nil
  show ?case by simp
next
  case (Cons e es)
  show ?case
    using Cons.IH [of "hist @ [e]"] by (cases e) simp_all
qed

lemma written_from_loop_events:
  "list_all is_loop_event es \<Longrightarrow> written_from w hist es = []"
proof (induction es arbitrary: hist)
  case Nil
  show ?case by simp
next
  case (Cons e es)
  then show ?case by (cases e) simp_all
qed

lemma save_data_written:
  assumes "json_dump_raises w (trace st) (data_file_path_of w data_path serial st) (sensors st) = None"
  shows "save_data w data_path serial st
           = (None,
              emit (data_saved_log (data_file_path_of w data_path serial st))
                (emit (EvJsonDump (data_file_path_of w data_path serial st) (sensors st) 4 False) st))"
  using assms by (simp add: save_data_def data_file_path_of_def data_saved_log_def Let_def)

text \<open>
  Claim C8, as amended. For every device whose poll succeeds (the retry loop ends with
  \<^verbatim>\<open>break\<close>) and whose write raises nothing, processing the device makes exactly one
  write and leaves exactly one document. Its path is the output directory joined with
  \<^verbatim>\<open>WavePlusPlus-<serial>-<timestamp>.json\<close>, where the timestamp is the clock formatted
  as year, month, day, hour, minute and second, separated by hyphens. The document is
  the value of \<open>sensors\<close> after the loop, which is non-empty, dumped with \<^verbatim>\<open>indent=4\<close>
  and \<^verbatim>\<open>sort_keys=False\<close>, that is, with its keys in insertion order.
\<close>

theorem successful_poll_writes_one_file:
  assumes res: "resolve_device device = Inr (serial, device_name)"
    and ok: "fst (acquire w serial (query_start device_name serial st)) = Break"
    and wr: "json_dump_raises w
               (trace (snd (acquire w serial (query_start device_name serial st))))
               (data_file_path_of w data_path serial
                  (snd (acquire w serial (query_start device_name serial st))))
               (sensors (snd (acquire w serial (query_start device_name serial st)))) = None"
  shows "written_from w (trace st) (events_since st (snd (process_device w data_path device st)))
           = [(data_file_path_of w data_path serial
                 (snd (acquire w serial (query_start device_name serial st))),
               sensors (snd (acquire w serial (query_start device_name serial st))))]
       \<and> filter is_dump (events_since st (snd (process_device w data_path device st)))
           = [EvJsonDump
                (data_file_path_of w data_path serial
                   (snd (acquire w serial (query_start device_name serial st))))
                (sensors (snd (acquire w serial (query_start device_name serial st))))
                4 False]
       \<and> py_truthy (sensors (snd (acquire w serial (query_start device_name serial st))))
       \<and> data_file_path_of w data_path serial
            (snd (acquire w serial (query_start device_name serial st)))
           = os_path_join data_path
               (''WavePlusPlus-'' @ str_int serial @ ''-''
                @ strftime ''%Y-%m-%d-%H-%M-%S''
                    (clock w (trace (snd (acquire w serial (query_start device_name serial st)))))
                @ ''.json'')
       \<and> strftime ''%Y-%m-%d-%H-%M-%S''
            (clock w (trace (snd (acquire w serial (query_start device_name serial st)))))
           = digits_of (dt_year (clock w (trace (snd (acquire w serial (query_start device_name serial st))))))
             @ ''-'' @ pad 2 (dt_month (clock w (trace (snd (acquire w serial (query_start device_name serial st))))))
             @ ''-'' @ pad 2 (dt_day (clock w (trace (snd (acquire w serial (query_start device_name serial st))))))
             @ ''-'' @ pad 2 (dt_hour (clock w (trace (snd (acquire w serial (query_start device_name serial st))))))
             @ ''-'' @ pad 2 (dt_minute (clock w (trace (snd (acquire w serial (query_start device_name serial st))))))
             @ ''-'' @ pad 2 (dt_second (clock w (trace (snd (acquire w serial (query_start device_name serial st))))))"
proof -
  define st2 where "st2 = query_start device_name serial st"
  define st3 where "st3 = snd (acquire w serial st2)"
  define p where "p = data_file_path_of w data_path serial st3"
  define dump where "dump = EvJsonDump p (sensors st3) 4 False"
  have acq: "acquire w serial st2 = (Break, st3)"
    using ok unfolding st3_def st2_def
    by (cases "acquire w serial (query_start device_name serial st)") simp
  have wr': "json_dump_raises w (trace st3) p (sensors st3) = None"
    using wr unfolding p_def st3_def st2_def .
  have pd: "process_device w data_path device st = save_data w data_path serial st3"
    using res acq unfolding st2_def by (rule process_device_break)
  have sd: "save_data w data_path serial st3 = (None, emit (data_saved_log p) (emit dump st3))"
    using wr' unfolding p_def dump_def by (rule save_data_written)
  have t2: "trace st2 = trace st @ [querying_log device_name serial]"
    by (simp add: st2_def query_start_def emit_def)
  have ext: "extends_with is_loop_event st2 st3"
    unfolding st3_def acquire_def by (rule for_attempts_extends)
  have t3: "trace st3 = trace st2 @ events_since st2 st3"
    using ext by (rule extends_with_events)
  have loop: "list_all is_loop_event (events_since st2 st3)"
    using ext by (simp add: extends_with_def)
  have t4: "trace (emit (data_saved_log p) (emit dump st3)) = trace st3 @ [dump, data_saved_log p]"
    by (simp add: emit_def)
  have t5: "trace (snd (process_device w data_path device st))
          = trace st @ (querying_log device_name serial # events_since st2 st3
                        @ [dump, data_saved_log p])"
    unfolding pd sd snd_conv t4 by (subst t3) (simp add: t2)
  have ev: "events_since st (snd (process_device w data_path device st))
          = [querying_log device_name serial] @ events_since st2 st3 @ [dump, data_saved_log p]"
    unfolding events_since_def t5 by simp
  have h3: "(trace st @ [querying_log device_name serial]) @ events_since st2 st3 = trace st3"
    unfolding t2 [symmetric] by (rule t3 [symmetric])
  have w1: "written_from w (trace st) [querying_log device_name serial] = []"
    by (simp add: querying_log_def)
  have w2: "written_from w (trace st @ [querying_log device_name serial]) (events_since st2 st3) = []"
    using loop by (rule written_from_loop_events)
  have w3: "written_from w (trace st3) [dump, data_saved_log p] = [(p, sensors st3)]"
    using wr' by (simp add: dump_def data_saved_log_def)
  have written: "written_from w (trace st) (events_since st (snd (process_device w data_path device st)))
          = [(p, sensors st3)]"
    unfolding ev written_from_append w1 w2 h3 w3 by simp
  have dumps: "filter is_dump (events_since st (snd (process_device w data_path device st))) = [dump]"
    unfolding ev using loop_events_no_dump [OF loop]
    by (simp add: querying_log_def data_saved_log_def dump_def)
  have truthy: "py_truthy (sensors st3)"
    using acq unfolding acquire_def by (rule for_attempts_break_truthy)
  have path: "p = os_path_join data_path
          (''WavePlusPlus-'' @ str_int serial @ ''-''
           @ strftime ''%Y-%m-%d-%H-%M-%S'' (clock w (trace st3)) @ ''.json'')"
    unfolding p_def by (simp only: data_file_path_of_def data_file_name_def)
  show ?thesis
    unfolding st2_def [symmetric] st3_def [symmetric] p_def [symmetric]
  proof (intro conjI)
    show "written_from w (trace st) (events_since st (snd (process_device w data_path device st)))
           = [(p, sensors st3)]"
      by (rule written)
    show "filter is_dump (events_since st (snd (process_device w data_path device st)))
           = [EvJsonDump p (sensors st3) 4 False]"
      using dumps unfolding dump_def .
    show "py_truthy (sensors st3)"
      by (rule truthy)
    show "p = os_path_join data_path
          (''WavePlusPlus-'' @ str_int serial @ ''-''
           @ strftime ''%Y-%m-%d-%H-%M-%S'' (clock w (trace st3)) @ ''.json'')"
      by (rule path)
    show "strftime ''%Y-%m-%d-%H-%M-%S'' (clock w (trace st3))
           = digits_of (dt_year (clock w (trace st3)))
             @ ''-'' @ pad 2 (dt_month (clock w (trace st3)))
             @ ''-'' @ pad 2 (dt_day (clock w (trace st3)))
             @ ''-'' @ pad 2 (dt_hour (clock w (trace st3)))
             @ ''-'' @ pad 2 (dt_minute (clock w (trace st3)))
             @ ''-'' @ pad 2 (dt_second (clock w (trace st3)))"
      by (rule strftime_timestamp)
  qed
qed

lemma digit_chars:
  "digit_char 0 = CHR ''0''" "digit_char 1 = CHR ''1''" "digit_char 2 = CHR ''2''"
  "digit_char 3 = CHR ''3''" "digit_char 4 = CHR ''4''" "digit_char 5 = CHR ''5''"
  "digit_char 6 = CHR ''6''" "digit_char 7 = CHR ''7''" "digit_char 8 = CHR ''8''"
  "digit_char 9 = CHR ''9''" "digit_char (Suc 0) = CHR ''1''"
  unfolding digit_char_def by code_simp+

theorem successful_poll_writes_one_file_witness:
  "resolve_device (PyDict [(''name'', PyNone), (''serial'', PyInt 7)]) = Inr (7, PyNone)
   \<and> fst (acquire w_good 7 (query_start PyNone 7 init_state)) = Break
   \<and> json_dump_raises w_good
        (trace (snd (acquire w_good 7 (query_start PyNone 7 init_state))))
        (data_file_path_of w_good ''data'' 7 (snd (acquire w_good 7 (query_start PyNone 7 init_state))))
        (sensors (snd (acquire w_good 7 (query_start PyNone 7 init_state)))) = None
   \<and> written_from w_good (trace init_state)
        (events_since init_state
           (snd (process_device w_good ''data'' (PyDict [(''name'', PyNone), (''serial'', PyInt 7)])
                   init_state)))
       = [(''data/WavePlusPlus-7-2024-03-09-07-05-01.json'', snapshot_example)]"
proof -
  have res: "resolve_device (PyDict [(''name'', PyNone), (''serial'', PyInt 7)]) = Inr (7, PyNone)"
    by (simp add: main_defs str_defs)
  have acq: "acquire w_good 7 (query_start PyNone 7 init_state)
      = (Break, \<lparr>trace = [querying_log PyNone 7] @ success_events 0 7, waveplus = Some 0,
                 sensors = snapshot_example\<rparr>)"
    by (simp add: loop_defs query_start_def querying_log_def success_events_def w_good_def
        snapshot_example_def)
  have ok: "fst (acquire w_good 7 (query_start PyNone 7 init_state)) = Break"
    using acq by simp
  have wr: "json_dump_raises w_good
        (trace (snd (acquire w_good 7 (query_start PyNone 7 init_state))))
        (data_file_path_of w_good ''data'' 7 (snd (acquire w_good 7 (query_start PyNone 7 init_state))))
        (sensors (snd (acquire w_good 7 (query_start PyNone 7 init_state)))) = None"
    by (simp add: w_good_def)
  have clk: "clock w_good = (\<lambda>tr. t_example)"
    by (simp add: w_good_def)
  have name: "data_file_path_of w_good ''data'' 7 st
      = ''data/WavePlusPlus-7-2024-03-09-07-05-01.json''" for st
    unfolding data_file_path_of_def data_file_name_def clk
    by (simp add: str_int_def pad_def directive_def os_path_join_def t_example_def digit_chars)
  have written: "written_from w_good (trace init_state)
        (events_since init_state
           (snd (process_device w_good ''data'' (PyDict [(''name'', PyNone), (''serial'', PyInt 7)])
                   init_state)))
       = [(data_file_path_of w_good ''data'' 7
             (snd (acquire w_good 7 (query_start PyNone 7 init_state))),
           sensors (snd (acquire w_good 7 (query_start PyNone 7 init_state))))]"
    using successful_poll_writes_one_file [OF res ok wr] by (rule conjunct1)
  have "written_from w_good (trace init_state)
        (events_since init_state
           (snd (process_device w_good ''data'' (PyDict [(''name'', PyNone), (''serial'', PyInt 7)])
                   init_state)))
       = [(''data/WavePlusPlus-7-2024-03-09-07-05-01.json'', snapshot_example)]"
    using written unfolding name acq by simp
  then show ?thesis
    using res ok wr by simp
qed

text \<open>
  Claim C8, as stated, fails: in the world \<open>w_write_fails\<close> the poll of device 7
  succeeds, the write raises \<^verbatim>\<open>PermissionError\<close>, which is caught and logged, and no
  document is left.
\<close>

theorem failed_write_leaves_no_document:
  "resolve_device (PyDict [(''name'', PyNone), (''serial'', PyInt 7)]) = Inr (7, PyNone)
   \<and> fst (acquire w_write_fails 7 (query_start PyNone 7 init_state)) = Break
   \<and> fst (process_device w_write_fails ''data''
             (PyDict [(''name'', PyNone), (''serial'', PyInt 7)]) init_state) = None
   \<and> written_from w_write_fails (trace init_state)
        (events_since init_state
           (snd (process_device w_write_fails ''data''
                   (PyDict [(''name'', PyNone), (''serial'', PyInt 7)]) init_state)))
       = []"
  by (simp add: loop_defs main_defs str_defs events_since_def query_start_def
      w_write_fails_def w_good_def snapshot_example_def)

section \<open>One device does not stop the run\<close>

lemma save_data_write_fails:
  assumes "json_dump_raises w (trace st) (data_file_path_of w data_path serial st) (sensors st) = Some e"
    and "is_Exception e"
  shows "save_data w data_path serial st
           = (None,
              emit (save_failed_log (data_file_path_of w data_path serial st) e)
                (emit (EvJsonDump (data_file_path_of w data_path serial st) (sensors st) 4 False) st))"
  using assms by (simp add: save_data_def data_file_path_of_def save_failed_log_def Let_def)

text \<open>
  Claim C6. For every list of device descriptors and every state of the run: when the
  retry loop of the first descriptor is exhausted, the device is given up with a
  warning, and when its poll succeeds but writing the output file raises an exception of
  class \<^verbatim>\<open>Exception\<close>, the failure is logged as an error. In both cases no exception
  leaves the processing of the device, and the run goes on with the rest of the list,
  in order, from the state with that log record.
\<close>

theorem device_failure_is_contained:
  assumes res: "resolve_device device = Inr (serial, device_name)"
  shows "(fst (acquire w serial (query_start device_name serial st)) = Fallthrough \<longrightarrow>
            process_device w data_path device st
              = (None, emit (giving_up_log serial)
                         (snd (acquire w serial (query_start device_name serial st))))
          \<and> for_devices w data_path (device # devices) st
              = for_devices w data_path devices
                  (emit (giving_up_log serial)
                     (snd (acquire w serial (query_start device_name serial st)))))
       \<and> (\<forall>e. fst (acquire w serial (query_start device_name serial st)) = Break
              \<and> json_dump_raises w
                   (trace (snd (acquire w serial (query_start device_name serial st))))
                   (data_file_path_of w data_path serial
                      (snd (acquire w serial (query_start device_name serial st))))
                   (sensors (snd (acquire w serial (query_start device_name serial st)))) = Some e
              \<and> is_Exception e \<longrightarrow>
            process_device w data_path device st
              = (None,
                 emit (save_failed_log
                         (data_file_path_of w data_path serial
                            (snd (acquire w serial (query_start device_name serial st)))) e)
                   (emit (EvJsonDump
                            (data_file_path_of w data_path serial
                               (snd (acquire w serial (query_start device_name serial st))))
                            (sensors (snd (acquire w serial (query_start device_name serial st))))
                            4 False)
                      (snd (acquire w serial (query_start device_name serial st)))))
          \<and> for_devices w data_path (device # devices) st
              = for_devices w data_path devices
                  (emit (save_failed_log
                           (data_file_path_of w data_path serial
                              (snd (acquire w serial (query_start device_name serial st)))) e)
                     (emit (EvJsonDump
                              (data_file_path_of w data_path serial
                                 (snd (acquire w serial (query_start device_name serial st))))
                              (sensors (snd (acquire w serial (query_start device_name serial st))))
                              4 False)
                        (snd (acquire w serial (query_start device_name serial st))))))"
proof -
  define st3 where "st3 = snd (acquire w serial (query_start device_name serial st))"
  have exhausted: "process_device w data_path device st = (None, emit (giving_up_log serial) st3)"
    if "fst (acquire w serial (query_start device_name serial st)) = Fallthrough"
  proof -
    have "acquire w serial (query_start device_name serial st) = (Fallthrough, st3)"
      using that unfolding st3_def
      by (cases "acquire w serial (query_start device_name serial st)") simp
    with res show ?thesis
      by (rule process_device_exhausted)
  qed
  have failed: "process_device w data_path device st
      = (None, emit (save_failed_log (data_file_path_of w data_path serial st3) e)
                 (emit (EvJsonDump (data_file_path_of w data_path serial st3) (sensors st3) 4 False)
                    st3))"
    if "fst (acquire w serial (query_start device_name serial st)) = Break"
      and "json_dump_raises w (trace st3) (data_file_path_of w data_path serial st3) (sensors st3)
             = Some e"
      and "is_Exception e"
    for e
  proof -
    have "acquire w serial (query_start device_name serial st) = (Break, st3)"
      using that(1) unfolding st3_def
      by (cases "acquire w serial (query_start device_name serial st)") simp
    with res have "process_device w data_path device st = save_data w data_path serial st3"
      by (rule process_device_break)
    then show ?thesis
      using save_data_write_fails [OF that(2) that(3)] by simp
  qed
  show ?thesis
    unfolding st3_def [symmetric]
    using exhausted failed by simp
qed

theorem device_failure_is_contained_witness:
  "resolve_device (PyDict [(''name'', PyNone), (''serial'', PyInt 7)]) = Inr (7, PyNone)
   \<and> fst (acquire w_empty 7 (query_start PyNone 7 init_state)) = Fallthrough
   \<and> for_devices w_empty ''data''
        [PyDict [(''name'', PyNone), (''serial'', PyInt 7)]] init_state
       = (None, emit (giving_up_log 7) (snd (acquire w_empty 7 (query_start PyNone 7 init_state))))
   \<and> fst (acquire w_write_fails 7 (query_start PyNone 7 init_state)) = Break
   \<and> is_Exception (PyError ''PermissionError'' ''Permission denied'')
   \<and> fst (for_devices w_write_fails ''data''
             [PyDict [(''name'', PyNone), (''serial'', PyInt 7)]] init_state) = None"
proof -
  have res: "resolve_device (PyDict [(''name'', PyNone), (''serial'', PyInt 7)]) = Inr (7, PyNone)"
    by (simp add: main_defs str_defs)
  have ex: "fst (acquire w_empty 7 (query_start PyNone 7 init_state)) = Fallthrough"
    by (simp add: loop_defs query_start_def querying_log_def w_empty_def w_good_def)
  have br: "fst (acquire w_write_fails 7 (query_start PyNone 7 init_state)) = Break"
    by (simp add: loop_defs query_start_def querying_log_def w_write_fails_def w_good_def
        snapshot_example_def)
  have wf: "json_dump_raises w_write_fails tr p doc
      = Some (PyError ''PermissionError'' ''Permission denied'')" for tr p doc
    by (simp add: w_write_fails_def w_good_def)
  have exn: "is_Exception (PyError ''PermissionError'' ''Permission denied'')"
    by simp
  note a = device_failure_is_contained [OF res, of w_empty init_state "''data''" "[]"]
  note b = device_failure_is_contained [OF res, of w_write_fails init_state "''data''" "[]"]
  have c1: "for_devices w_empty ''data''
        [PyDict [(''name'', PyNone), (''serial'', PyInt 7)]] init_state
       = (None, emit (giving_up_log 7) (snd (acquire w_empty 7 (query_start PyNone 7 init_state))))"
    using a ex by simp
  have c2: "fst (for_devices w_write_fails ''data''
             [PyDict [(''name'', PyNone), (''serial'', PyInt 7)]] init_state) = None"
    using b br wf exn by simp
  show ?thesis
    using res ex br exn c1 c2 by simp
qed

section \<open>Attempts and sleeps of an exhausted loop\<close>

lemma events_since_trans:
  assumes "extends_with P st st'" and "extends_with P st' st''"
  shows "events_since st st'' = events_since st st' @ events_since st' st''"
proof -
  have a: "trace st' = trace st @ events_since st st'"
    using assms(1) by (rule extends_with_events)
  have b: "trace st'' = trace st' @ events_since st' st''"
    using assms(2) by (rule extends_with_events)
  have "trace st'' = trace st @ (events_since st st' @ events_since st' st'')"
    by (subst b, subst a) simp
  then show ?thesis
    by (simp add: events_since_def [of st st''])
qed

lemma attempt_once_empty_read:
  assumes new: "\<And>tr s. client_new w tr s = None"
    and conn: "\<And>tr oid. client_connect w tr oid = None"
    and rd: "\<And>tr oid. \<exists>v. client_read w tr oid = Inr v \<and> \<not> py_truthy v"
    and disc: "\<And>tr oid. client_disconnect w tr oid = None"
  shows "fst (attempt_once w serial a st) = Fallthrough
       \<and> filter is_sleep (events_since st (snd (attempt_once w serial a st))) = []"
proof -
  obtain v where v: "client_read w (trace st @ [EvNew (fresh_id (trace st)) serial,
                                                EvConnect (fresh_id (trace st))])
                       (fresh_id (trace st)) = Inr v" "\<not> py_truthy v"
    using rd by blast
  show ?thesis
    using v by (simp add: attempt_defs new conn disc events_since_def)
qed

lemma attempt_once_connect_raises:
  assumes new: "\<And>tr s. client_new w tr s = None"
    and conn: "\<And>tr oid. \<exists>cls msg. client_connect w tr oid = Some (PyError cls msg)"
    and slp: "\<And>tr. sleep_raises w tr = None"
  shows "fst (attempt_once w serial a st) = Fallthrough
       \<and> filter is_sleep (events_since st (snd (attempt_once w serial a st)))
           = (if a < 4 then [EvSleep 5] else [])"
proof -
  obtain cls msg where c: "client_connect w (trace st @ [EvNew (fresh_id (trace st)) serial])
                             (fresh_id (trace st)) = Some (PyError cls msg)"
    using conn by blast
  show ?thesis
    using c by (simp add: attempt_defs new slp events_since_def)
qed

lemma for_attempts_all_fall_through:
  assumes step: "\<And>a st. fst (attempt_once w serial a st) = Fallthrough
                   \<and> filter is_sleep (events_since st (snd (attempt_once w serial a st))) = f a"
  shows "fst (for_attempts w serial xs st) = Fallthrough
       \<and> filter is_sleep (events_since st (snd (for_attempts w serial xs st))) = concat (map f xs)
       \<and> length (filter is_new (events_since st (snd (for_attempts w serial xs st)))) = length xs"
proof (induction xs arbitrary: st)
  case Nil
  show ?case by (simp add: events_since_def)
next
  case (Cons a xs)
  obtain c st1 where ao: "attempt_once w serial a st = (c, st1)"
    by (cases "attempt_once w serial a st")
  have c: "c = Fallthrough" and sl: "filter is_sleep (events_since st st1) = f a"
    using step [of a st] ao by simp_all
  have e1: "extends_with is_loop_event st st1"
    using attempt_once_extends [of st w serial a] ao by simp
  have e2: "extends_with is_loop_event st1 (snd (for_attempts w serial xs st1))"
    by (rule for_attempts_extends)
  have run: "for_attempts w serial (a # xs) st = for_attempts w serial xs st1"
    using ao c by simp
  have ev: "events_since st (snd (for_attempts w serial xs st1))
      = events_since st st1 @ events_since st1 (snd (for_attempts w serial xs st1))"
    using e1 e2 by (rule events_since_trans)
  have "trace st1 = trace st @ events_since st st1"
    using e1 by (rule extends_with_events)
  then have "length (filter is_new (trace st1))
      = length (filter is_new (trace st)) + length (filter is_new (events_since st st1))"
    by (metis filter_append length_append)
  then have n1: "length (filter is_new (events_since st st1)) = 1"
    using attempt_once_new_count [of w serial a st] ao by simp
  show ?case
    unfolding run ev using Cons.IH [of st1] sl n1 by simp
qed

text \<open>
  A device whose \<^verbatim>\<open>read\<close> returns an empty result in every attempt, with no call raising,
  in any world and from any state: the loop makes five attempts, never sleeps, and is
  exhausted. This is the behaviour of claim C2's first failure class for every such
  device, not only for the world \<open>w_empty\<close>.
\<close>

theorem empty_results_never_sleep:
  assumes new: "\<And>tr s. client_new w tr s = None"
    and conn: "\<And>tr oid. client_connect w tr oid = None"
    and rd: "\<And>tr oid. \<exists>v. client_read w tr oid = Inr v \<and> \<not> py_truthy v"
    and disc: "\<And>tr oid. client_disconnect w tr oid = None"
  shows "fst (acquire w serial st) = Fallthrough
       \<and> filter is_sleep (events_since st (snd (acquire w serial st))) = []
       \<and> length (filter is_new (events_since st (snd (acquire w serial st)))) = 5"
  using for_attempts_all_fall_through [of w serial "\<lambda>a. []" "[0..<5]" st,
      OF attempt_once_empty_read [OF new conn rd disc]]
  by (simp add: acquire_def)

theorem empty_results_never_sleep_witness:
  "(\<forall>tr s. client_new w_empty tr s = None)
   \<and> (\<forall>tr oid. client_connect w_empty tr oid = None)
   \<and> (\<forall>tr oid. \<exists>v. client_read w_empty tr oid = Inr v \<and> \<not> py_truthy v)
   \<and> (\<forall>tr oid. client_disconnect w_empty tr oid = None)
   \<and> fst (acquire w_empty 7 init_state) = Fallthrough
   \<and> filter is_sleep (events_since init_state (snd (acquire w_empty 7 init_state))) = []
   \<and> length (filter is_new (events_since init_state (snd (acquire w_empty 7 init_state)))) = 5"
proof -
  have new: "client_new w_empty tr s = None" for tr s
    by (simp add: w_empty_def w_good_def)
  have conn: "client_connect w_empty tr oid = None" for tr oid
    by (simp add: w_empty_def w_good_def)
  have rd: "\<exists>v. client_read w_empty tr oid = Inr v \<and> \<not> py_truthy v" for tr oid
    by (simp add: w_empty_def w_good_def)
  have disc: "client_disconnect w_empty tr oid = None" for tr oid
    by (simp add: w_empty_def w_good_def)
  show ?thesis
    using new conn rd disc empty_results_never_sleep [OF new conn rd disc, of 7 init_state]
    by blast
qed

text \<open>
  A device whose \<^verbatim>\<open>connect\<close> raises an exception of class \<^verbatim>\<open>Exception\<close> in every attempt,
  in any world and from any state in which the constructor and \<^verbatim>\<open>sleep\<close> raise nothing:
  the loop makes five attempts, sleeps after each of the first four and not after the
  fifth, and is exhausted.
\<close>

theorem unreachable_device_is_given_up:
  assumes new: "\<And>tr s. client_new w tr s = None"
    and conn: "\<And>tr oid. \<exists>cls msg. client_connect w tr oid = Some (PyError cls msg)"
    and slp: "\<And>tr. sleep_raises w tr = None"
  shows "fst (acquire w serial st) = Fallthrough
       \<and> filter is_sleep (events_since st (snd (acquire w serial st)))
           = [EvSleep 5, EvSleep 5, EvSleep 5, EvSleep 5]
       \<and> length (filter is_new (events_since st (snd (acquire w serial st)))) = 5"
  using for_attempts_all_fall_through
      [of w serial "\<lambda>a. if a < 4 then [EvSleep 5] else []" "[0..<5]" st,
       OF attempt_once_connect_raises [OF new conn slp]]
  by (simp add: acquire_def range_5)

theorem unreachable_device_is_given_up_witness:
  "(\<forall>tr s. client_new w_unreachable tr s = None)
   \<and> (\<forall>tr oid. \<exists>cls msg. client_connect w_unreachable tr oid = Some (PyError cls msg))
   \<and> (\<forall>tr. sleep_raises w_unreachable tr = None)
   \<and> fst (acquire w_unreachable 7 init_state) = Fallthrough
   \<and> length (filter is_sleep (events_since init_state (snd (acquire w_unreachable 7 init_state)))) = 4
   \<and> length (filter is_new (events_since init_state (snd (acquire w_unreachable 7 init_state)))) = 5"
proof -
  have new: "client_new w_unreachable tr s = None" for tr s
    by (simp add: w_unreachable_def w_good_def)
  have conn: "\<exists>cls msg. client_connect w_unreachable tr oid = Some (PyError cls msg)" for tr oid
    by (simp add: w_unreachable_def w_good_def)
  have slp: "sleep_raises w_unreachable tr = None" for tr
    by (simp add: w_unreachable_def w_good_def)
  show ?thesis
    using new conn slp unreachable_device_is_given_up [OF new conn slp, of 7 init_state]
    by simp
qed

text \<open>
  In every world and from every state, the retry loop over a list of attempt numbers
  starts at most as many attempts as the list is long: \<open>acquire\<close> never calls the
  constructor more than five times.
\<close>

theorem attempt_budget:
  "length (filter is_new (events_since st (snd (for_attempts w serial xs st)))) \<le> length xs
   \<and> length (filter is_new (events_since st (snd (acquire w serial st)))) \<le> 5"
proof -
  have gen: "length (filter is_new (events_since st (snd (for_attempts w serial xs st)))) \<le> length xs"
    for xs st
  proof (induction xs arbitrary: st)
    case Nil
    show ?case by (simp add: events_since_def)
  next
    case (Cons a xs)
    obtain c st1 where ao: "attempt_once w serial a st = (c, st1)"
      by (cases "attempt_once w serial a st")
    have e1: "extends_with is_loop_event st st1"
      using attempt_once_extends [of st w serial a] ao by simp
    have "trace st1 = trace st @ events_since st st1"
      using e1 by (rule extends_with_events)
    then have "length (filter is_new (trace st1))
        = length (filter is_new (trace st)) + length (filter is_new (events_since st st1))"
      by (metis filter_append length_append)
    then have n1: "length (filter is_new (events_since st st1)) = 1"
      using attempt_once_new_count [of w serial a st] ao by simp
    show ?case
    proof (cases c)
      case Fallthrough
      have e2: "extends_with is_loop_event st1 (snd (for_attempts w serial xs st1))"
        by (rule for_attempts_extends)
      have ev: "events_since st (snd (for_attempts w serial xs st1))
          = events_since st st1 @ events_since st1 (snd (for_attempts w serial xs st1))"
        using e1 e2 by (rule events_since_trans)
      have run: "for_attempts w serial (a # xs) st = for_attempts w serial xs st1"
        using ao Fallthrough by simp
      show ?thesis
        unfolding run ev using Cons.IH [of st1] n1 by simp
    qed (use ao n1 in simp_all)
  qed
  show ?thesis
    using gen [of st xs] gen [of st "[0..<5]"] by (simp add: acquire_def)
qed

end
